theory Spec2Isabelle
  imports Complex_Main
begin

section \<open>Values of the verification service\<close>

text \<open>
  The model follows \<^verbatim>\<open>src/services/verification-service.ts\<close>. Data has the types the
  TypeScript interfaces declare: \<^verbatim>\<open>VerificationAgent\<close> and \<^verbatim>\<open>VerificationResult\<close>
  are records, the string unions are datatypes, an optional field is an \<open>option\<close>.
  Two kinds of value are kept as the providers send them, since the code converts or
  returns them without a check: the \<^verbatim>\<open>reasoning\<close> of an agent and the \<^verbatim>\<open>text\<close> of a
  content block. Both are parsed JSON (\<open>json\<close>), or \<^verbatim>\<open>undefined\<close> (\<open>None\<close>) when the
  field is missing. A verdict and a confidence are only compared and passed on; they
  stay at their declared types.

  A JavaScript number is a rational, \<open>NaN\<close> or \<open>Infinity\<close>. The decimal literals of the
  source (0.6, 0.75, 0.3, 0.8) denote themselves, and a vote fraction is kept exact; over
  four agents every fraction is a multiple of 1/4, which a double holds exactly, and the
  double nearest to 0.6 lies strictly between 2/4 and 3/4 as 0.6 does, so every comparison
  with the threshold comes out as the code's.
\<close>

datatype verdict = V_true | V_false | V_inconclusive

datatype number = Num rat | Infinity | NaN

text \<open>Division of two counts (both non-negative integers), as \<^verbatim>\<open>/\<close> computes it.\<close>

definition js_div :: "nat \<Rightarrow> nat \<Rightarrow> number" where
  "js_div a b =
     (if b \<noteq> 0 then Num (of_nat a / of_nat b)
      else if a = 0 then NaN
      else Infinity)"

text \<open>The comparison \<^verbatim>\<open>>=\<close>: false as soon as one side is \<open>NaN\<close>.\<close>

fun js_ge :: "number \<Rightarrow> number \<Rightarrow> bool" where
  "js_ge (Num a) (Num b) = (b \<le> a)"
| "js_ge Infinity (Num b) = True"
| "js_ge Infinity Infinity = True"
| "js_ge (Num a) Infinity = False"
| "js_ge NaN y = False"
| "js_ge x NaN = False"

text \<open>
  A value as \<^verbatim>\<open>response.json()\<close> or \<^verbatim>\<open>JSON.parse\<close> gives it. An object is the list of
  its own keys with their values.
\<close>

datatype json =
  JNull | JBool bool | JNumber number | JString string | JArray "json list"
  | JObject "(string \<times> json) list"

text \<open>A value thrown: an \<^verbatim>\<open>Error\<close> with its message, or something that is no Error.\<close>

datatype thrown = Error string | NonError

text \<open>
  The conversion to a string that a template literal applies (ECMAScript \<^verbatim>\<open>ToString\<close>);
  \<open>nt\<close> is the platform's conversion of a number. An array joins its elements with
  commas, \<^verbatim>\<open>null\<close> giving the empty string. An object is converted by its
  \<^verbatim>\<open>toString\<close>, then its \<^verbatim>\<open>valueOf\<close>: with an own key \<^verbatim>\<open>toString\<close> (whose value, being
  parsed JSON, is no function) the first is skipped and the second gives no primitive, so
  the conversion throws a TypeError; without it the inherited method gives
  \<^verbatim>\<open>[object Object]\<close>.
\<close>

fun to_string :: "(number \<Rightarrow> string) \<Rightarrow> json \<Rightarrow> thrown + string"
  and join :: "(number \<Rightarrow> string) \<Rightarrow> json list \<Rightarrow> thrown + string" where
  "to_string nt JNull = Inr ''null''"
| "to_string nt (JBool b) = Inr (if b then ''true'' else ''false'')"
| "to_string nt (JNumber n) = Inr (nt n)"
| "to_string nt (JString s) = Inr s"
| "to_string nt (JArray xs) = join nt xs"
| "to_string nt (JObject kvs) =
     (if ''toString'' \<in> set (map fst kvs)
      then Inl (Error ''Cannot convert object to primitive value'')
      else Inr ''[object Object]'')"
| "join nt [] = Inr []"
| "join nt (x # xs) =
     (case (if x = JNull then Inr [] else to_string nt x) of
        Inl e \<Rightarrow> Inl e
      | Inr s \<Rightarrow>
          if xs = [] then Inr s
          else (case join nt xs of Inl e \<Rightarrow> Inl e | Inr t \<Rightarrow> Inr (s @ '','' @ t)))"

text \<open>The same conversion of a value that may be \<^verbatim>\<open>undefined\<close>.\<close>

definition ToString :: "(number \<Rightarrow> string) \<Rightarrow> json option \<Rightarrow> thrown + string" where
  "ToString nt v = (case v of None \<Rightarrow> Inr ''undefined'' | Some j \<Rightarrow> to_string nt j)"

text \<open>The conversions of the elements of an array, left to right; the first throw ends them.\<close>

primrec to_strings :: "(number \<Rightarrow> string) \<Rightarrow> json list \<Rightarrow> thrown + string list" where
  "to_strings nt [] = Inr []"
| "to_strings nt (v # vs) =
     (case to_string nt v of
        Inl e \<Rightarrow> Inl e
      | Inr s \<Rightarrow> (case to_strings nt vs of Inl e \<Rightarrow> Inl e | Inr ss \<Rightarrow> Inr (s # ss)))"

text \<open>
  What the interface declares for \<^verbatim>\<open>reasoning?: string\<close>: a string, or nothing.
\<close>

fun declared_string :: "json option \<Rightarrow> bool" where
  "declared_string None = True"
| "declared_string (Some (JString s)) = True"
| "declared_string (Some v) = False"

record VerificationAgent =
  name :: string
  verdict :: verdict
  confidence :: number
  reasoning :: "json option"

text \<open>The type of \<^verbatim>\<open>lavaGatewayConsensus\<close>: a verdict and its score.\<close>

record ConsensusOutcome =
  consensusVerdict :: verdict
  consensusScore :: number

section \<open>Local consensus\<close>

text \<open>
  \<^verbatim>\<open>calculateLocalConsensus\<close> (lines 411-439): the three counts are lengths of filtered
  arrays, the total is the length of the array, the threshold is 0.6, and
  \<^verbatim>\<open>Math.max\<close> of the three counts gives the score of the last branch.
\<close>

definition calculateLocalConsensus :: "VerificationAgent list \<Rightarrow> ConsensusOutcome" where
  "calculateLocalConsensus agents =
     (let falseCount = length (filter (\<lambda>a. verdict a = V_false) agents);
          trueCount = length (filter (\<lambda>a. verdict a = V_true) agents);
          inconclusiveCount = length (filter (\<lambda>a. verdict a = V_inconclusive) agents);
          totalVotes = length agents;
          consensusThreshold = Num (6 / 10)
      in if js_ge (js_div falseCount totalVotes) consensusThreshold
         then \<lparr>consensusVerdict = V_false, consensusScore = js_div falseCount totalVotes\<rparr>
         else if js_ge (js_div trueCount totalVotes) consensusThreshold
         then \<lparr>consensusVerdict = V_true, consensusScore = js_div trueCount totalVotes\<rparr>
         else \<lparr>consensusVerdict = V_inconclusive,
               consensusScore =
                 js_div (max falseCount (max trueCount inconclusiveCount)) totalVotes\<rparr>)"

section \<open>Exceptions, responses and the world outside\<close>

text \<open>
  An \<^verbatim>\<open>async\<close> function settles either way: \<open>Inl\<close> is a rejection (an exception
  thrown inside it), \<open>Inr\<close> the value it returns. The \<^verbatim>\<open>catch\<close> blocks tell an Error
  from another thrown value with \<^verbatim>\<open>instanceof Error\<close>.
\<close>

text \<open>The reasoning a \<^verbatim>\<open>catch\<close> block of an adapter writes (lines 164, 219, 294, 355).\<close>

definition error_reasoning :: "thrown \<Rightarrow> string" where
  "error_reasoning error =
     ''Error: '' @ (case error of Error message \<Rightarrow> message | NonError \<Rightarrow> ''Unknown error'')"

text \<open>
  Reading a property of \<^verbatim>\<open>undefined\<close> throws a TypeError; its message quotes the name
  of the property (character 39 is the single quote).
\<close>

definition undefined_property :: "string \<Rightarrow> thrown" where
  "undefined_property p =
     Error (''Cannot read properties of undefined (reading '' @ [CHR 0x27] @ p @ [CHR 0x27] @
            '')'')"

text \<open>
  What \<^verbatim>\<open>fetch\<close> resolves with: the \<^verbatim>\<open>ok\<close> flag, the status text, and how
  \<^verbatim>\<open>response.json()\<close> settles (it rejects when the body is not JSON). A body that parses
  is an object with the arrays the code indexes; a field the code gives a default for, a
  reasoning and the text of a block may be absent.
\<close>

datatype 'b response = Response (ok: bool) (statusText: string) (json: "thrown + 'b")

text \<open>
  \<^verbatim>\<open>/v1/messages\<close>: the code reads \<^verbatim>\<open>data.content[0].text\<close>. The array of content
  blocks may be empty, and a block may have no \<^verbatim>\<open>text\<close> (a block of another type than
  text has none).
\<close>

datatype text_block = Text_block (block_text: "json option")

datatype anthropic_data = Anthropic_data (content: "text_block list")

text \<open>\<^verbatim>\<open>:generateContent\<close>: the code reads \<^verbatim>\<open>data.candidates[0].content.parts[0].text\<close>.\<close>

datatype gemini_part = Gemini_part (part_text: "json option")

datatype gemini_content = Gemini_content (parts: "gemini_part list")

datatype gemini_candidate = Gemini_candidate (candidate_content: gemini_content)

datatype gemini_data = Gemini_data (candidates: "gemini_candidate list")

text \<open>What \<^verbatim>\<open>JSON.parse\<close> returns on the text of a language model's answer.\<close>

record llm_result =
  result_verdict :: verdict
  result_confidence :: number
  result_reasoning :: "json option"

text \<open>\<^verbatim>\<open>/v1/verify\<close>: three fields, each of which may be missing.\<close>

record fetchai_data =
  data_verdict :: "verdict option"
  data_confidence :: "number option"
  data_reasoning :: "json option"

text \<open>\<^verbatim>\<open>/v1/search\<close>: the code reads \<^verbatim>\<open>data.results\<close>, an array when present.\<close>

datatype brightdata_data = Brightdata_data (results: "string list option")

text \<open>\<^verbatim>\<open>/v1/consensus\<close>: the code reads \<^verbatim>\<open>data.verdict\<close> and \<^verbatim>\<open>data.score\<close>.\<close>

record lava_data =
  lava_verdict :: verdict
  lava_score :: number

text \<open>
  The two requests sent to \<^verbatim>\<open>/v1/messages\<close>, each named by what the code interpolates
  into its prompt: the statement to check, or the false statement with the collected
  reasonings, each converted to a string.
\<close>

datatype anthropic_prompt = Fact_check string | Correction string "string list"

datatype endpoint =
  Anthropic_messages | Agentverse_verify | Gemini_generateContent | BrightData_search
  | Lava_consensus

text \<open>The API keys of \<^verbatim>\<open>apiConfig\<close> the service reads; an unset key is the empty string.\<close>

record api_config =
  anthropic_apiKey :: string
  fetchAI_apiKey :: string
  gemini_apiKey :: string
  brightData_apiKey :: string
  lavaGateway_apiKey :: string

text \<open>
  Everything outside the service: how each request settles (every request does), what
  \<^verbatim>\<open>JSON.parse\<close> and \<^verbatim>\<open>crypto.randomUUID\<close> return, how the platform writes a number
  as a string, and when the promise at each index of \<^verbatim>\<open>Promise.all\<close> settles.
\<close>

record world =
  fetch_messages :: "anthropic_prompt \<Rightarrow> thrown + anthropic_data response"
  fetch_verify :: "string \<Rightarrow> thrown + fetchai_data response"
  fetch_generateContent :: "string \<Rightarrow> thrown + gemini_data response"
  fetch_search :: "string \<Rightarrow> thrown + brightdata_data response"
  fetch_consensus :: "(string \<times> verdict \<times> number) list \<Rightarrow> thrown + lava_data response"
  JSON_parse :: "string \<Rightarrow> thrown + llm_result"
  Number_toString :: "number \<Rightarrow> string"
  randomUUID :: string
  latency :: "nat \<Rightarrow> nat"

text \<open>
  An effectful call returns how it settles together with the requests it sent, in the
  order it sent them.
\<close>

type_synonym 'a async = "(thrown + 'a) \<times> endpoint list"

section \<open>Truthiness\<close>

text \<open>
  \<^verbatim>\<open>!x\<close>, \<^verbatim>\<open>!!x\<close> and \<^verbatim>\<open>x || d\<close> test whether a value is truthy: the empty string,
  0, \<open>NaN\<close>, \<^verbatim>\<open>null\<close> and \<^verbatim>\<open>false\<close> are not, a missing field (\<^verbatim>\<open>undefined\<close>) is
  not; every array and every object is.
\<close>

definition truthy_string :: "string \<Rightarrow> bool" where
  "truthy_string s = (s \<noteq> [])"

fun truthy_number :: "number \<Rightarrow> bool" where
  "truthy_number (Num r) = (r \<noteq> 0)"
| "truthy_number Infinity = True"
| "truthy_number NaN = False"

fun truthy_json :: "json \<Rightarrow> bool" where
  "truthy_json JNull = False"
| "truthy_json (JBool b) = b"
| "truthy_json (JNumber n) = truthy_number n"
| "truthy_json (JString s) = truthy_string s"
| "truthy_json (JArray xs) = True"
| "truthy_json (JObject kvs) = True"

text \<open>The three verdicts are non-empty strings.\<close>

definition truthy_verdict :: "verdict \<Rightarrow> bool" where
  "truthy_verdict v = True"

text \<open>\<^verbatim>\<open>field || d\<close>: the field when it is there and truthy, otherwise \<open>d\<close>.\<close>

definition or_default :: "('a \<Rightarrow> bool) \<Rightarrow> 'a option \<Rightarrow> 'a \<Rightarrow> 'a" where
  "or_default truthy field d =
     (case field of None \<Rightarrow> d | Some v \<Rightarrow> if truthy v then v else d)"

section \<open>Agent adapters\<close>

text \<open>The object every adapter returns when its key is not set (lines 105, 176, 231, 306).\<close>

definition not_configured :: "string \<Rightarrow> VerificationAgent" where
  "not_configured n =
     \<lparr>name = n, verdict = V_inconclusive, confidence = Num 0,
      reasoning = Some (JString ''API key not configured'')\<rparr>"

text \<open>The object every adapter returns from its \<^verbatim>\<open>catch\<close> block.\<close>

definition failed :: "string \<Rightarrow> thrown \<Rightarrow> VerificationAgent" where
  "failed n error =
     \<lparr>name = n, verdict = V_inconclusive, confidence = Num 0,
      reasoning = Some (JString (error_reasoning error))\<rparr>"

text \<open>
  The \<^verbatim>\<open>try\<close> block of \<^verbatim>\<open>verifyWithClaude\<close> (lines 114-157). \<^verbatim>\<open>JSON.parse\<close> converts
  its argument to a string first.
\<close>

definition claude_try :: "world \<Rightarrow> string \<Rightarrow> thrown + VerificationAgent" where
  "claude_try w statement =
     (case fetch_messages w (Fact_check statement) of
        Inl e \<Rightarrow> Inl e
      | Inr response \<Rightarrow>
          if \<not> ok response
          then Inl (Error (''Claude API error: '' @ statusText response))
          else (case json response of
                  Inl e \<Rightarrow> Inl e
                | Inr data \<Rightarrow>
                    (case content data of
                       [] \<Rightarrow> Inl (undefined_property ''text'')
                     | block # _ \<Rightarrow>
                         (case ToString (Number_toString w) (block_text block) of
                            Inl e \<Rightarrow> Inl e
                          | Inr t \<Rightarrow>
                              (case JSON_parse w t of
                                 Inl e \<Rightarrow> Inl e
                               | Inr result \<Rightarrow>
                                   Inr \<lparr>name = ''Claude (Anthropic)'',
                                        verdict = result_verdict result,
                                        confidence = result_confidence result,
                                        reasoning = result_reasoning result\<rparr>)))))"

definition verifyWithClaude :: "api_config \<Rightarrow> world \<Rightarrow> string \<Rightarrow> VerificationAgent async" where
  "verifyWithClaude cfg w statement =
     (if anthropic_apiKey cfg = []
      then (Inr (not_configured ''Claude (Anthropic)''), [])
      else (case claude_try w statement of
              Inl error \<Rightarrow> Inr (failed ''Claude (Anthropic)'' error)
            | Inr agent \<Rightarrow> Inr agent,
            [Anthropic_messages]))"

text \<open>The \<^verbatim>\<open>try\<close> block of \<^verbatim>\<open>verifyWithFetchAI\<close> (lines 185-212).\<close>

definition fetchAI_try :: "world \<Rightarrow> string \<Rightarrow> thrown + VerificationAgent" where
  "fetchAI_try w statement =
     (case fetch_verify w statement of
        Inl e \<Rightarrow> Inl e
      | Inr response \<Rightarrow>
          if \<not> ok response
          then Inl (Error (''Fetch.ai API error: '' @ statusText response))
          else (case json response of
                  Inl e \<Rightarrow> Inl e
                | Inr data \<Rightarrow>
                    Inr \<lparr>name = ''Fetch.ai'',
                         verdict = or_default truthy_verdict (data_verdict data) V_inconclusive,
                         confidence = or_default truthy_number (data_confidence data) (Num (8 / 10)),
                         reasoning =
                           Some (or_default truthy_json (data_reasoning data)
                                   (JString ''Fetch.ai agent verification''))\<rparr>))"

definition verifyWithFetchAI :: "api_config \<Rightarrow> world \<Rightarrow> string \<Rightarrow> VerificationAgent async" where
  "verifyWithFetchAI cfg w statement =
     (if fetchAI_apiKey cfg = []
      then (Inr (not_configured ''Fetch.ai''), [])
      else (case fetchAI_try w statement of
              Inl error \<Rightarrow> Inr (failed ''Fetch.ai'' error)
            | Inr agent \<Rightarrow> Inr agent,
            [Agentverse_verify]))"

text \<open>The \<^verbatim>\<open>try\<close> block of \<^verbatim>\<open>verifyWithGemini\<close> (lines 240-287).\<close>

definition gemini_try :: "world \<Rightarrow> string \<Rightarrow> thrown + VerificationAgent" where
  "gemini_try w statement =
     (case fetch_generateContent w statement of
        Inl e \<Rightarrow> Inl e
      | Inr response \<Rightarrow>
          if \<not> ok response
          then Inl (Error (''Gemini API error: '' @ statusText response))
          else (case json response of
                  Inl e \<Rightarrow> Inl e
                | Inr data \<Rightarrow>
                    (case candidates data of
                       [] \<Rightarrow> Inl (undefined_property ''content'')
                     | candidate # _ \<Rightarrow>
                         (case parts (candidate_content candidate) of
                            [] \<Rightarrow> Inl (undefined_property ''text'')
                          | part # _ \<Rightarrow>
                              (case ToString (Number_toString w) (part_text part) of
                                 Inl e \<Rightarrow> Inl e
                               | Inr t \<Rightarrow>
                                   (case JSON_parse w t of
                                      Inl e \<Rightarrow> Inl e
                                    | Inr result \<Rightarrow>
                                        Inr \<lparr>name = ''Gemini (Google)'',
                                             verdict = result_verdict result,
                                             confidence = result_confidence result,
                                             reasoning = result_reasoning result\<rparr>))))))"

definition verifyWithGemini :: "api_config \<Rightarrow> world \<Rightarrow> string \<Rightarrow> VerificationAgent async" where
  "verifyWithGemini cfg w statement =
     (if gemini_apiKey cfg = []
      then (Inr (not_configured ''Gemini (Google)''), [])
      else (case gemini_try w statement of
              Inl error \<Rightarrow> Inr (failed ''Gemini (Google)'' error)
            | Inr agent \<Rightarrow> Inr agent,
            [Gemini_generateContent]))"

text \<open>
  The \<^verbatim>\<open>try\<close> block of \<^verbatim>\<open>verifyWithBrightData\<close> (lines 315-348);
  \<^verbatim>\<open>hasResults = data.results && data.results.length > 0\<close>.
\<close>

definition brightData_try :: "world \<Rightarrow> string \<Rightarrow> thrown + VerificationAgent" where
  "brightData_try w statement =
     (case fetch_search w statement of
        Inl e \<Rightarrow> Inl e
      | Inr response \<Rightarrow>
          if \<not> ok response
          then Inl (Error (''Bright Data API error: '' @ statusText response))
          else (case json response of
                  Inl e \<Rightarrow> Inl e
                | Inr data \<Rightarrow>
                    (let hasResults =
                           (case results data of None \<Rightarrow> False | Some rs \<Rightarrow> 0 < length rs)
                     in Inr \<lparr>name = ''Bright Data'',
                             verdict = (if hasResults then V_true else V_inconclusive),
                             confidence = (if hasResults then Num (75 / 100) else Num (3 / 10)),
                             reasoning =
                               Some (JString (if hasResults then ''Found supporting web sources''
                                              else ''No conclusive web sources found''))\<rparr>)))"

definition verifyWithBrightData :: "api_config \<Rightarrow> world \<Rightarrow> string \<Rightarrow> VerificationAgent async" where
  "verifyWithBrightData cfg w statement =
     (if brightData_apiKey cfg = []
      then (Inr (not_configured ''Bright Data''), [])
      else (case brightData_try w statement of
              Inl error \<Rightarrow> Inr (failed ''Bright Data'' error)
            | Inr agent \<Rightarrow> Inr agent,
            [BrightData_search]))"

section \<open>Consensus resolver\<close>

text \<open>
  The \<^verbatim>\<open>try\<close> block of \<^verbatim>\<open>getLavaGatewayConsensus\<close> (lines 373-400). The body of the
  request holds the name, verdict and confidence of every agent.
\<close>

definition lava_try :: "world \<Rightarrow> VerificationAgent list \<Rightarrow> thrown + ConsensusOutcome" where
  "lava_try w agents =
     (case fetch_consensus w (map (\<lambda>a. (name a, verdict a, confidence a)) agents) of
        Inl e \<Rightarrow> Inl e
      | Inr response \<Rightarrow>
          if \<not> ok response
          then Inl (Error (''Lava Gateway error: '' @ statusText response))
          else (case json response of
                  Inl e \<Rightarrow> Inl e
                | Inr data \<Rightarrow>
                    Inr \<lparr>consensusVerdict = lava_verdict data,
                         consensusScore = lava_score data\<rparr>))"

definition getLavaGatewayConsensus ::
  "api_config \<Rightarrow> world \<Rightarrow> VerificationAgent list \<Rightarrow> ConsensusOutcome async" where
  "getLavaGatewayConsensus cfg w agents =
     (if lavaGateway_apiKey cfg = []
      then (Inr (calculateLocalConsensus agents), [])
      else (case lava_try w agents of
              Inl error \<Rightarrow> Inr (calculateLocalConsensus agents)
            | Inr outcome \<Rightarrow> Inr outcome,
            [Lava_consensus]))"

section \<open>Correction synthesizer\<close>

text \<open>
  The constant \<^verbatim>\<open>falseReasonings\<close> (lines 449-452): the agents voting false, their
  reasonings, and of these the truthy ones. The type guard \<^verbatim>\<open>r is string\<close> of the
  filter is not checked when the code runs: whatever is truthy stays.
\<close>

definition falseReasonings :: "VerificationAgent list \<Rightarrow> json list" where
  "falseReasonings agents =
     map the
       (filter (\<lambda>r. case r of None \<Rightarrow> False | Some v \<Rightarrow> truthy_json v)
          (map reasoning (filter (\<lambda>a. verdict a = V_false) agents)))"

text \<open>
  How a \<^verbatim>\<open>try\<close> block ends when nothing is thrown: with a \<^verbatim>\<open>return\<close> of a value
  (which may be \<^verbatim>\<open>undefined\<close>), or by reaching its end.
\<close>

datatype 'a exit = Returned 'a | Completed

text \<open>
  The \<^verbatim>\<open>try\<close> block of \<^verbatim>\<open>generateCorrectInformation\<close> (lines 461-491). The body of the
  request interpolates every reasoning, so the conversions come first and the request
  is sent only if none of them throws. When the response is ok the block returns
  \<^verbatim>\<open>data.content[0].text\<close>, whatever it is; when it is not, the block reaches its end.
\<close>

definition correction_try ::
  "world \<Rightarrow> string \<Rightarrow> json list \<Rightarrow> (thrown + json option exit) \<times> endpoint list" where
  "correction_try w falseStatement reasonings =
     (case to_strings (Number_toString w) reasonings of
        Inl e \<Rightarrow> (Inl e, [])
      | Inr texts \<Rightarrow>
          (case fetch_messages w (Correction falseStatement texts) of
             Inl e \<Rightarrow> Inl e
           | Inr response \<Rightarrow>
               if ok response
               then (case json response of
                       Inl e \<Rightarrow> Inl e
                     | Inr data \<Rightarrow>
                         (case content data of
                            [] \<Rightarrow> Inl (undefined_property ''text'')
                          | block # _ \<Rightarrow> Inr (Returned (block_text block))))
               else Inr Completed,
           [Anthropic_messages]))"

text \<open>
  The last line of the function (line 498), outside every \<^verbatim>\<open>try\<close>: the template literal
  converts \<^verbatim>\<open>falseReasonings[0]\<close> to a string.
\<close>

definition first_reasoning :: "world \<Rightarrow> json \<Rightarrow> thrown + json option" where
  "first_reasoning w first =
     (case to_string (Number_toString w) first of
        Inl e \<Rightarrow> Inl e
      | Inr s \<Rightarrow> Inr (Some (JString (''Correction: '' @ s))))"

text \<open>
  \<^verbatim>\<open>generateCorrectInformation\<close> (lines 444-499). It is declared to give a string; what it
  gives is a string or whatever the synthesis response holds as the text of its first
  block, \<^verbatim>\<open>undefined\<close> (\<open>None\<close>) included.
\<close>

definition generateCorrectInformation ::
  "api_config \<Rightarrow> world \<Rightarrow> string \<Rightarrow> VerificationAgent list \<Rightarrow> json option async" where
  "generateCorrectInformation cfg w falseStatement agents =
     (case falseReasonings agents of
        [] \<Rightarrow>
          (Inr (Some (JString (''The statement has been determined to be false, '' @
                               ''but specific corrections are unavailable.''))), [])
      | first # others \<Rightarrow>
          if anthropic_apiKey cfg \<noteq> []
          then (case correction_try w falseStatement (first # others) of
                  (Inr (Returned correction), calls) \<Rightarrow> (Inr correction, calls)
                | (Inr Completed, calls) \<Rightarrow> (first_reasoning w first, calls)
                | (Inl error, calls) \<Rightarrow> (first_reasoning w first, calls))
          else (first_reasoning w first, []))"

section \<open>Joining the adapters\<close>

text \<open>
  \<^verbatim>\<open>Promise.all\<close> keeps an array of values, one slot per promise. The promises settle
  in the order of their latencies; a fulfilled one stores its value at its own index, the
  first rejected one rejects the whole. When every promise has stored its value the
  array is the result. The order of settlement lists every index below the number of
  promises once, so \<open>settle\<close> reads no promise out of range and leaves no slot empty.
\<close>

primrec settle :: "(thrown + 'a) list \<Rightarrow> nat list \<Rightarrow> 'a option list \<Rightarrow> thrown + 'a option list" where
  "settle promises [] values = Inr values"
| "settle promises (i # order) values =
     (case promises ! i of
        Inl e \<Rightarrow> Inl e
      | Inr v \<Rightarrow> settle promises order (values[i := Some v]))"

definition promise_all :: "(nat \<Rightarrow> nat) \<Rightarrow> (thrown + 'a) list \<Rightarrow> thrown + 'a list" where
  "promise_all lat promises =
     (case settle promises (sort_key lat [0..<length promises])
             (replicate (length promises) None) of
        Inl e \<Rightarrow> Inl e
      | Inr values \<Rightarrow> Inr (map the values))"

section \<open>Verification orchestrator\<close>

datatype consensus = Verified_true | Verified_false | Inconclusive

record VerificationResult =
  statementId :: string
  isFalse :: bool
  consensus :: consensus
  correctInformation :: "json option"
  agents :: "VerificationAgent list"
  lavaGatewayConsensus :: ConsensusOutcome

text \<open>
  \<^verbatim>\<open>verifyStatement\<close> (lines 52-96). The four adapters are called in order, so their
  requests go out in that order, and their promises are joined. The array the join gives
  is destructured into four names; were it shorter, a name would be \<^verbatim>\<open>undefined\<close> and
  reading its verdict would throw. The constants \<^verbatim>\<open>statementId\<close>, \<^verbatim>\<open>isFalse\<close>,
  \<^verbatim>\<open>consensus\<close>, \<^verbatim>\<open>agents\<close> and \<^verbatim>\<open>lavaGatewayConsensus\<close> of the source are written
  \<open>sid\<close>, \<open>false\<close>, \<open>label\<close>, \<open>agentList\<close> and \<open>outcome\<close>: the source's names are
  those of the fields of the result.
\<close>

definition verifyStatement :: "api_config \<Rightarrow> world \<Rightarrow> string \<Rightarrow> VerificationResult async" where
  "verifyStatement cfg w statement =
     (let sid = randomUUID w;
          (claudePromise, claudeCalls) = verifyWithClaude cfg w statement;
          (fetchAIPromise, fetchAICalls) = verifyWithFetchAI cfg w statement;
          (geminiPromise, geminiCalls) = verifyWithGemini cfg w statement;
          (brightDataPromise, brightDataCalls) = verifyWithBrightData cfg w statement;
          calls = claudeCalls @ fetchAICalls @ geminiCalls @ brightDataCalls
      in case promise_all (latency w)
                [claudePromise, fetchAIPromise, geminiPromise, brightDataPromise] of
           Inl e \<Rightarrow> (Inl e, calls)
         | Inr (claudeResult # fetchAIResult # geminiResult # brightDataResult # _) \<Rightarrow>
             (let agentList = [claudeResult, fetchAIResult, geminiResult, brightDataResult];
                  (consensusPromise, gatewayCalls) = getLavaGatewayConsensus cfg w agentList
              in case consensusPromise of
                   Inl e \<Rightarrow> (Inl e, calls @ gatewayCalls)
                 | Inr outcome \<Rightarrow>
                     (let false = (consensusVerdict outcome = V_false);
                          label =
                            (if consensusVerdict outcome = V_true then Verified_true
                             else if consensusVerdict outcome = V_false then Verified_false
                             else Inconclusive)
                      in if false
                         then (case generateCorrectInformation cfg w statement agentList of
                                 (Inl e, correctionCalls) \<Rightarrow>
                                   (Inl e, calls @ gatewayCalls @ correctionCalls)
                               | (Inr correction, correctionCalls) \<Rightarrow>
                                   (Inr \<lparr>statementId = sid, isFalse = false,
                                         consensus = label,
                                         correctInformation = correction,
                                         agents = agentList,
                                         lavaGatewayConsensus = outcome\<rparr>,
                                    calls @ gatewayCalls @ correctionCalls))
                         else (Inr \<lparr>statementId = sid, isFalse = false,
                                    consensus = label,
                                    correctInformation = None,
                                    agents = agentList,
                                    lavaGatewayConsensus = outcome\<rparr>,
                               calls @ gatewayCalls)))
         | Inr _ \<Rightarrow> (Inl (undefined_property ''verdict''), calls))"

section \<open>Concrete agents, configurations and worlds\<close>

text \<open>The inputs at which the theorems below are instantiated.\<close>

definition agent_voting :: "string \<Rightarrow> verdict \<Rightarrow> VerificationAgent" where
  "agent_voting n v = \<lparr>name = n, verdict = v, confidence = Num (9 / 10), reasoning = None\<rparr>"

definition three_false_one_inconclusive :: "VerificationAgent list" where
  "three_false_one_inconclusive =
     [agent_voting ''Claude (Anthropic)'' V_false, agent_voting ''Fetch.ai'' V_false,
      agent_voting ''Gemini (Google)'' V_false, agent_voting ''Bright Data'' V_inconclusive]"

definition two_false_two_true :: "VerificationAgent list" where
  "two_false_two_true =
     [agent_voting ''Claude (Anthropic)'' V_false, agent_voting ''Fetch.ai'' V_false,
      agent_voting ''Gemini (Google)'' V_true, agent_voting ''Bright Data'' V_true]"

text \<open>Claude votes false and gives no reasoning; Fetch.ai is the first to explain.\<close>

definition second_agent_explains :: "VerificationAgent list" where
  "second_agent_explains =
     [agent_voting ''Claude (Anthropic)'' V_false,
      \<lparr>name = ''Fetch.ai'', verdict = V_false, confidence = Num (8 / 10),
       reasoning = Some (JString ''The Earth is an oblate spheroid.'')\<rparr>,
      \<lparr>name = ''Gemini (Google)'', verdict = V_false, confidence = Num (9 / 10),
       reasoning = Some (JString ''Satellite images show a globe.'')\<rparr>,
      \<lparr>name = ''Bright Data'', verdict = V_true, confidence = Num (75 / 100),
       reasoning = Some (JString ''Found supporting web sources'')\<rparr>]"

definition no_keys :: api_config where
  "no_keys =
     \<lparr>anthropic_apiKey = [], fetchAI_apiKey = [], gemini_apiKey = [],
      brightData_apiKey = [], lavaGateway_apiKey = []\<rparr>"

definition anthropic_only :: api_config where
  "anthropic_only = no_keys\<lparr>anthropic_apiKey := ''anthropic-key''\<rparr>"

definition fetchAI_only :: api_config where
  "fetchAI_only = no_keys\<lparr>fetchAI_apiKey := ''fetch-key''\<rparr>"

definition brightData_only :: api_config where
  "brightData_only = no_keys\<lparr>brightData_apiKey := ''bright-key''\<rparr>"

definition lava_only :: api_config where
  "lava_only = no_keys\<lparr>lavaGateway_apiKey := ''lava-key''\<rparr>"

text \<open>
  No host answers; the last adapter's promise settles first. No example converts a number
  to a string, so \<open>Number_toString\<close> is left trivial.
\<close>

definition unreachable :: world where
  "unreachable =
     \<lparr>fetch_messages = (\<lambda>_. Inl (Error ''Failed to fetch'')),
      fetch_verify = (\<lambda>_. Inl (Error ''Failed to fetch'')),
      fetch_generateContent = (\<lambda>_. Inl (Error ''Failed to fetch'')),
      fetch_search = (\<lambda>_. Inl (Error ''Failed to fetch'')),
      fetch_consensus = (\<lambda>_. Inl (Error ''Failed to fetch'')),
      JSON_parse = (\<lambda>_. Inl (Error ''Unexpected token'')),
      Number_toString = (\<lambda>_. ''0''),
      randomUUID = ''123e4567-e89b-42d3-a456-426614174000'',
      latency = (\<lambda>i. 4 - i)\<rparr>"

definition gateway_says_false :: world where
  "gateway_says_false =
     unreachable\<lparr>fetch_consensus :=
       (\<lambda>_. Inr (Response True ''OK''
              (Inr \<lparr>lava_verdict = V_false, lava_score = Num (9 / 10)\<rparr>)))\<rparr>"

definition gateway_overloaded :: world where
  "gateway_overloaded =
     unreachable\<lparr>fetch_consensus :=
       (\<lambda>_. Inr (Response False ''Service Unavailable'' (Inl (Error ''Unexpected token''))))\<rparr>"

definition search_finds_one :: world where
  "search_finds_one =
     unreachable\<lparr>fetch_search :=
       (\<lambda>_. Inr (Response True ''OK''
              (Inr (Brightdata_data (Some [''https://example.org/flat-earth''])))))\<rparr>"

definition search_finds_nothing :: world where
  "search_finds_nothing =
     unreachable\<lparr>fetch_search :=
       (\<lambda>_. Inr (Response True ''OK'' (Inr (Brightdata_data (Some [])))))\<rparr>"

text \<open>Fetch.ai answers that the statement is false, with confidence 0.\<close>

definition agent_certain_of_nothing :: world where
  "agent_certain_of_nothing =
     unreachable\<lparr>fetch_verify :=
       (\<lambda>_. Inr (Response True ''OK''
              (Inr \<lparr>data_verdict = Some V_false, data_confidence = Some (Num 0),
                    data_reasoning = Some (JString ''The Earth is round.'')\<rparr>)))\<rparr>"

text \<open>Fetch.ai answers with every field set and truthy.\<close>

definition agent_confident :: world where
  "agent_confident =
     unreachable\<lparr>fetch_verify :=
       (\<lambda>_. Inr (Response True ''OK''
              (Inr \<lparr>data_verdict = Some V_false, data_confidence = Some (Num (95 / 100)),
                    data_reasoning = Some (JString ''The Earth is round.'')\<rparr>)))\<rparr>"

definition all_keys_but_gateway :: api_config where
  "all_keys_but_gateway =
     \<lparr>anthropic_apiKey = ''anthropic-key'', fetchAI_apiKey = ''fetch-key'',
      gemini_apiKey = ''gemini-key'', brightData_apiKey = ''bright-key'',
      lavaGateway_apiKey = []\<rparr>"

text \<open>
  Every provider answers; the three that give a verdict say false, the search finds a
  page, and the synthesis request is answered with a correction.
\<close>

definition providers_refute :: world where
  "providers_refute =
     \<lparr>fetch_messages =
        (\<lambda>prompt. case prompt of
           Fact_check _ \<Rightarrow>
             Inr (Response True ''OK''
                    (Inr (Anthropic_data [Text_block (Some (JString ''answer of Claude''))])))
         | Correction _ _ \<Rightarrow>
             Inr (Response True ''OK''
                    (Inr (Anthropic_data
                       [Text_block (Some (JString ''The Earth is an oblate spheroid.''))])))),
      fetch_verify =
        (\<lambda>_. Inr (Response True ''OK''
               (Inr \<lparr>data_verdict = Some V_false, data_confidence = None,
                     data_reasoning = Some (JString ''Measured since antiquity.'')\<rparr>))),
      fetch_generateContent =
        (\<lambda>_. Inr (Response True ''OK''
               (Inr (Gemini_data
                  [Gemini_candidate
                     (Gemini_content [Gemini_part (Some (JString ''answer of Gemini''))])])))),
      fetch_search =
        (\<lambda>_. Inr (Response True ''OK''
               (Inr (Brightdata_data (Some [''https://example.org/flat-earth'']))))),
      fetch_consensus = (\<lambda>_. Inl (Error ''Failed to fetch'')),
      JSON_parse =
        (\<lambda>_. Inr \<lparr>result_verdict = V_false, result_confidence = Num (95 / 100),
                   result_reasoning = Some (JString ''Photographs from orbit show a sphere.'')\<rparr>),
      Number_toString = (\<lambda>_. ''0''),
      randomUUID = ''123e4567-e89b-42d3-a456-426614174000'',
      latency = (\<lambda>i. 4 - i)\<rparr>"

text \<open>
  Fetch.ai answers false and gives, as its reasoning, an object with the key
  \<^verbatim>\<open>toString\<close>; the gateway answers false.
\<close>

definition fetchAI_and_gateway :: api_config where
  "fetchAI_and_gateway =
     no_keys\<lparr>fetchAI_apiKey := ''fetch-key'', lavaGateway_apiKey := ''lava-key''\<rparr>"

definition reasoning_is_object :: world where
  "reasoning_is_object =
     gateway_says_false\<lparr>fetch_verify :=
       (\<lambda>_. Inr (Response True ''OK''
              (Inr \<lparr>data_verdict = Some V_false, data_confidence = None,
                    data_reasoning = Some (JObject [(''toString'', JNumber (Num 1))])\<rparr>)))\<rparr>"

text \<open>
  The gateway and Fetch.ai answer false; Claude's answer to the fact check is no JSON, and
  the first content block of its answer to the synthesis request has no text.
\<close>

definition anthropic_fetchAI_and_gateway :: api_config where
  "anthropic_fetchAI_and_gateway =
     no_keys\<lparr>anthropic_apiKey := ''anthropic-key'', fetchAI_apiKey := ''fetch-key'',
             lavaGateway_apiKey := ''lava-key''\<rparr>"

definition block_without_text :: world where
  "block_without_text =
     gateway_says_false
       \<lparr>fetch_messages :=
          (\<lambda>prompt. case prompt of
             Fact_check _ \<Rightarrow>
               Inr (Response True ''OK''
                      (Inr (Anthropic_data [Text_block (Some (JString ''I cannot tell.''))])))
           | Correction _ _ \<Rightarrow>
               Inr (Response True ''OK'' (Inr (Anthropic_data [Text_block None])))),
        fetch_verify :=
          (\<lambda>_. Inr (Response True ''OK''
                 (Inr \<lparr>data_verdict = Some V_false, data_confidence = Some (Num (95 / 100)),
                       data_reasoning = Some (JString ''The Earth is round.'')\<rparr>)))\<rparr>"

section \<open>Properties of the local consensus\<close>

lemma count_list_verdict:
  "count_list (map verdict ags) v = length (filter (\<lambda>a. verdict a = v) ags)"
  by (induction ags) auto

lemma votes_le_total: "length (filter P ags) \<le> length ags"
  by (rule length_filter_le)

text \<open>Over four votes the threshold 0.6 is met by three votes and not by two.\<close>

lemma threshold_cutoff: "((6 / 10 :: rat) \<le> of_nat n / 4) = (3 \<le> n)"
proof -
  have "((6 / 10 :: rat) \<le> of_nat n / 4) = ((24 :: rat) \<le> of_nat (10 * n))"
    by (simp add: field_simps)
  also have "\<dots> = ((24 :: nat) \<le> 10 * n)"
    by (metis of_nat_le_iff of_nat_numeral)
  also have "\<dots> = (3 \<le> n)" by arith
  finally show ?thesis .
qed

lemma three_quarters: "3 \<le> n \<Longrightarrow> (75 / 100 :: rat) \<le> of_nat n / 4"
proof -
  assume "3 \<le> n"
  then have "(3 :: rat) \<le> of_nat n"
    by (metis of_nat_le_iff of_nat_numeral)
  then show ?thesis by (simp add: field_simps)
qed

lemma fraction_in_unit: "n \<le> 4 \<Longrightarrow> (0 :: rat) \<le> of_nat n / 4 \<and> (of_nat n / 4 :: rat) \<le> 1"
proof -
  assume "n \<le> 4"
  then have "(of_nat n :: rat) \<le> 4"
    by (metis of_nat_le_iff of_nat_numeral)
  then show ?thesis by simp
qed

lemma local_consensus_by_counts:
  assumes "length ags = 4"
  shows "calculateLocalConsensus ags =
     (let f = length (filter (\<lambda>a. verdict a = V_false) ags);
          t = length (filter (\<lambda>a. verdict a = V_true) ags);
          i = length (filter (\<lambda>a. verdict a = V_inconclusive) ags)
      in if 3 \<le> f then \<lparr>consensusVerdict = V_false, consensusScore = Num (of_nat f / 4)\<rparr>
         else if 3 \<le> t then \<lparr>consensusVerdict = V_true, consensusScore = Num (of_nat t / 4)\<rparr>
         else \<lparr>consensusVerdict = V_inconclusive,
               consensusScore = Num (of_nat (max f (max t i)) / 4)\<rparr>)"
  using assms
  by (simp add: calculateLocalConsensus_def js_div_def Let_def threshold_cutoff)

text \<open>
  C2. Over four agents the local consensus is: verdict false with score falseCount/4 when
  falseCount/4 is at least 0.6; else verdict true with score trueCount/4 when trueCount/4
  is at least 0.6; else verdict inconclusive with the score of the largest of the three
  buckets, max(falseCount, trueCount, inconclusiveCount)/4.
\<close>

theorem local_consensus_of_four:
  assumes "length ags = 4"
  shows "calculateLocalConsensus ags =
     (let falseCount = count_list (map verdict ags) V_false;
          trueCount = count_list (map verdict ags) V_true;
          inconclusiveCount = count_list (map verdict ags) V_inconclusive
      in if (6 / 10 :: rat) \<le> of_nat falseCount / 4
         then \<lparr>consensusVerdict = V_false, consensusScore = Num (of_nat falseCount / 4)\<rparr>
         else if (6 / 10 :: rat) \<le> of_nat trueCount / 4
         then \<lparr>consensusVerdict = V_true, consensusScore = Num (of_nat trueCount / 4)\<rparr>
         else \<lparr>consensusVerdict = V_inconclusive,
               consensusScore =
                 Num (of_nat (max falseCount (max trueCount inconclusiveCount)) / 4)\<rparr>)"
  using assms
  by (simp add: calculateLocalConsensus_def count_list_verdict js_div_def Let_def)

theorem local_consensus_of_four_witness:
  "length three_false_one_inconclusive = 4 \<and>
   calculateLocalConsensus three_false_one_inconclusive =
     \<lparr>consensusVerdict = V_false, consensusScore = Num (3 / 4)\<rparr> \<and>
   length two_false_two_true = 4 \<and>
   calculateLocalConsensus two_false_two_true =
     \<lparr>consensusVerdict = V_inconclusive, consensusScore = Num (1 / 2)\<rparr>"
  using local_consensus_of_four [of three_false_one_inconclusive]
    local_consensus_of_four [of two_false_two_true]
  by (simp add: three_false_one_inconclusive_def two_false_two_true_def agent_voting_def)

text \<open>
  C10. Over four agents, a decisive local verdict (true or false) comes with the fraction
  of agents that voted for it as its score, and that fraction is at least the threshold
  0.6, hence at least 0.75; whatever the verdict, the score lies between 0 and 1.
\<close>

theorem decisive_score_bounds:
  assumes "length ags = 4"
  shows "(consensusVerdict (calculateLocalConsensus ags) = V_false \<longrightarrow>
            consensusScore (calculateLocalConsensus ags) =
              Num (of_nat (count_list (map verdict ags) V_false) / 4) \<and>
            (6 / 10 :: rat) \<le> of_nat (count_list (map verdict ags) V_false) / 4 \<and>
            (75 / 100 :: rat) \<le> of_nat (count_list (map verdict ags) V_false) / 4) \<and>
         (consensusVerdict (calculateLocalConsensus ags) = V_true \<longrightarrow>
            consensusScore (calculateLocalConsensus ags) =
              Num (of_nat (count_list (map verdict ags) V_true) / 4) \<and>
            (6 / 10 :: rat) \<le> of_nat (count_list (map verdict ags) V_true) / 4 \<and>
            (75 / 100 :: rat) \<le> of_nat (count_list (map verdict ags) V_true) / 4) \<and>
         (\<exists>s. consensusScore (calculateLocalConsensus ags) = Num s \<and> 0 \<le> s \<and> s \<le> 1)"
proof -
  define f where "f = length (filter (\<lambda>a. verdict a = V_false) ags)"
  define t where "t = length (filter (\<lambda>a. verdict a = V_true) ags)"
  define i where "i = length (filter (\<lambda>a. verdict a = V_inconclusive) ags)"
  have bounds: "f \<le> 4" "t \<le> 4" "i \<le> 4"
    using assms votes_le_total [of _ ags] by (simp_all add: f_def t_def i_def)
  have eq: "calculateLocalConsensus ags =
      (if 3 \<le> f then \<lparr>consensusVerdict = V_false, consensusScore = Num (of_nat f / 4)\<rparr>
       else if 3 \<le> t then \<lparr>consensusVerdict = V_true, consensusScore = Num (of_nat t / 4)\<rparr>
       else \<lparr>consensusVerdict = V_inconclusive,
             consensusScore = Num (of_nat (max f (max t i)) / 4)\<rparr>)"
    using local_consensus_by_counts [OF assms] by (simp add: f_def t_def i_def Let_def)
  have score: "consensusScore (calculateLocalConsensus ags) =
      Num (of_nat (if 3 \<le> f then f else if 3 \<le> t then t else max f (max t i)) / 4)"
    by (simp add: eq)
  have "(if 3 \<le> f then f else if 3 \<le> t then t else max f (max t i)) \<le> 4"
    using bounds by simp
  from fraction_in_unit [OF this] score
  have in_unit: "\<exists>s. consensusScore (calculateLocalConsensus ags) = Num s \<and> 0 \<le> s \<and> s \<le> 1"
    by blast
  have false_case: "consensusVerdict (calculateLocalConsensus ags) = V_false \<longrightarrow>
      consensusScore (calculateLocalConsensus ags) = Num (of_nat f / 4) \<and>
      (6 / 10 :: rat) \<le> of_nat f / 4 \<and> (75 / 100 :: rat) \<le> of_nat f / 4"
    using three_quarters [of f] by (simp add: eq threshold_cutoff)
  have true_case: "consensusVerdict (calculateLocalConsensus ags) = V_true \<longrightarrow>
      consensusScore (calculateLocalConsensus ags) = Num (of_nat t / 4) \<and>
      (6 / 10 :: rat) \<le> of_nat t / 4 \<and> (75 / 100 :: rat) \<le> of_nat t / 4"
    using three_quarters [of t] by (simp add: eq threshold_cutoff)
  show ?thesis
    unfolding count_list_verdict f_def [symmetric] t_def [symmetric]
    using false_case true_case in_unit by blast
qed

theorem decisive_score_bounds_witness:
  "length three_false_one_inconclusive = 4 \<and>
   consensusVerdict (calculateLocalConsensus three_false_one_inconclusive) = V_false \<and>
   consensusScore (calculateLocalConsensus three_false_one_inconclusive) =
     Num (of_nat (count_list (map verdict three_false_one_inconclusive) V_false) / 4) \<and>
   (75 / 100 :: rat) \<le> of_nat (count_list (map verdict three_false_one_inconclusive) V_false) / 4"
proof -
  have l: "length three_false_one_inconclusive = 4"
    by (simp add: three_false_one_inconclusive_def)
  have v: "consensusVerdict (calculateLocalConsensus three_false_one_inconclusive) = V_false"
    by (simp add: three_false_one_inconclusive_def agent_voting_def
        calculateLocalConsensus_def js_div_def)
  show ?thesis
    using l v decisive_score_bounds [OF l] by simp
qed

text \<open>
  Over four agents the local verdict is false exactly when at least three agents vote
  false, and true exactly when fewer than three vote false and at least three vote true.
\<close>

theorem three_of_four_rule:
  assumes "length ags = 4"
  shows "(consensusVerdict (calculateLocalConsensus ags) = V_false) =
           (3 \<le> count_list (map verdict ags) V_false) \<and>
         (consensusVerdict (calculateLocalConsensus ags) = V_true) =
           (count_list (map verdict ags) V_false < 3 \<and> 3 \<le> count_list (map verdict ags) V_true)"
  using local_consensus_by_counts [OF assms]
  by (auto simp: count_list_verdict Let_def)

theorem three_of_four_rule_witness:
  "length two_false_two_true = 4 \<and>
   consensusVerdict (calculateLocalConsensus two_false_two_true) \<noteq> V_false \<and>
   consensusVerdict (calculateLocalConsensus two_false_two_true) \<noteq> V_true"
proof -
  have l: "length two_false_two_true = 4"
    by (simp add: two_false_two_true_def)
  show ?thesis
    using l three_of_four_rule [OF l]
    by (simp add: two_false_two_true_def agent_voting_def)
qed

section \<open>Properties of the adapters\<close>

text \<open>Each adapter returns an agent carrying its own name, whatever the world does.\<close>

lemma verifyWithClaude_fulfils:
  "\<exists>a. fst (verifyWithClaude cfg w s) = Inr a \<and> name a = ''Claude (Anthropic)''"
  by (auto simp: verifyWithClaude_def claude_try_def not_configured_def failed_def
      split: sum.splits list.splits)

lemma verifyWithFetchAI_fulfils:
  "\<exists>a. fst (verifyWithFetchAI cfg w s) = Inr a \<and> name a = ''Fetch.ai''"
  by (auto simp: verifyWithFetchAI_def fetchAI_try_def not_configured_def failed_def
      split: sum.splits list.splits)

lemma verifyWithGemini_fulfils:
  "\<exists>a. fst (verifyWithGemini cfg w s) = Inr a \<and> name a = ''Gemini (Google)''"
  by (auto simp: verifyWithGemini_def gemini_try_def not_configured_def failed_def
      split: sum.splits list.splits)

lemma verifyWithBrightData_fulfils:
  "\<exists>a. fst (verifyWithBrightData cfg w s) = Inr a \<and> name a = ''Bright Data''"
  by (auto simp: verifyWithBrightData_def brightData_try_def not_configured_def failed_def Let_def
      split: sum.splits list.splits)

lemma adapters_ignore_latency:
  "verifyWithClaude cfg (w\<lparr>latency := lat\<rparr>) s = verifyWithClaude cfg w s"
  "verifyWithFetchAI cfg (w\<lparr>latency := lat\<rparr>) s = verifyWithFetchAI cfg w s"
  "verifyWithGemini cfg (w\<lparr>latency := lat\<rparr>) s = verifyWithGemini cfg w s"
  "verifyWithBrightData cfg (w\<lparr>latency := lat\<rparr>) s = verifyWithBrightData cfg w s"
  by (simp_all add: verifyWithClaude_def claude_try_def verifyWithFetchAI_def fetchAI_try_def
      verifyWithGemini_def gemini_try_def verifyWithBrightData_def brightData_try_def
      cong: sum.case_cong list.case_cong if_cong)

text \<open>
  A request that is rejected, or answered with a status that is not ok, makes the adapter
  return verdict inconclusive with confidence 0 and the error's message as reasoning.
\<close>

theorem adapters_report_failures:
  "(\<forall>m. anthropic_apiKey cfg \<noteq> [] \<and> fetch_messages w (Fact_check s) = Inl (Error m) \<longrightarrow>
      fst (verifyWithClaude cfg w s) =
        Inr \<lparr>name = ''Claude (Anthropic)'', verdict = V_inconclusive, confidence = Num 0,
             reasoning = Some (JString (''Error: '' @ m))\<rparr>) \<and>
   (\<forall>response.
      anthropic_apiKey cfg \<noteq> [] \<and> fetch_messages w (Fact_check s) = Inr response \<and>
      \<not> ok response \<longrightarrow>
      fst (verifyWithClaude cfg w s) =
        Inr \<lparr>name = ''Claude (Anthropic)'', verdict = V_inconclusive, confidence = Num 0,
             reasoning = Some (JString (''Error: Claude API error: '' @ statusText response))\<rparr>) \<and>
   (\<forall>m. fetchAI_apiKey cfg \<noteq> [] \<and> fetch_verify w s = Inl (Error m) \<longrightarrow>
      fst (verifyWithFetchAI cfg w s) =
        Inr \<lparr>name = ''Fetch.ai'', verdict = V_inconclusive, confidence = Num 0,
             reasoning = Some (JString (''Error: '' @ m))\<rparr>) \<and>
   (\<forall>response.
      fetchAI_apiKey cfg \<noteq> [] \<and> fetch_verify w s = Inr response \<and> \<not> ok response \<longrightarrow>
      fst (verifyWithFetchAI cfg w s) =
        Inr \<lparr>name = ''Fetch.ai'', verdict = V_inconclusive, confidence = Num 0,
             reasoning = Some (JString (''Error: Fetch.ai API error: '' @ statusText response))\<rparr>) \<and>
   (\<forall>m. gemini_apiKey cfg \<noteq> [] \<and> fetch_generateContent w s = Inl (Error m) \<longrightarrow>
      fst (verifyWithGemini cfg w s) =
        Inr \<lparr>name = ''Gemini (Google)'', verdict = V_inconclusive, confidence = Num 0,
             reasoning = Some (JString (''Error: '' @ m))\<rparr>) \<and>
   (\<forall>response.
      gemini_apiKey cfg \<noteq> [] \<and> fetch_generateContent w s = Inr response \<and>
      \<not> ok response \<longrightarrow>
      fst (verifyWithGemini cfg w s) =
        Inr \<lparr>name = ''Gemini (Google)'', verdict = V_inconclusive, confidence = Num 0,
             reasoning = Some (JString (''Error: Gemini API error: '' @ statusText response))\<rparr>) \<and>
   (\<forall>m. brightData_apiKey cfg \<noteq> [] \<and> fetch_search w s = Inl (Error m) \<longrightarrow>
      fst (verifyWithBrightData cfg w s) =
        Inr \<lparr>name = ''Bright Data'', verdict = V_inconclusive, confidence = Num 0,
             reasoning = Some (JString (''Error: '' @ m))\<rparr>) \<and>
   (\<forall>response.
      brightData_apiKey cfg \<noteq> [] \<and> fetch_search w s = Inr response \<and> \<not> ok response \<longrightarrow>
      fst (verifyWithBrightData cfg w s) =
        Inr \<lparr>name = ''Bright Data'', verdict = V_inconclusive, confidence = Num 0,
             reasoning = Some (JString (''Error: Bright Data API error: '' @ statusText response))\<rparr>)"
  by (simp add: verifyWithClaude_def claude_try_def verifyWithFetchAI_def fetchAI_try_def
      verifyWithGemini_def gemini_try_def verifyWithBrightData_def brightData_try_def
      failed_def error_reasoning_def)

theorem adapters_report_failures_witness:
  "anthropic_apiKey anthropic_only \<noteq> [] \<and>
   fetch_messages unreachable (Fact_check ''The Earth is flat'') = Inl (Error ''Failed to fetch'') \<and>
   fst (verifyWithClaude anthropic_only unreachable ''The Earth is flat'') =
     Inr \<lparr>name = ''Claude (Anthropic)'', verdict = V_inconclusive, confidence = Num 0,
          reasoning = Some (JString ''Error: Failed to fetch'')\<rparr>"
proof -
  have k: "anthropic_apiKey anthropic_only \<noteq> []"
    by (simp add: anthropic_only_def no_keys_def)
  have down: "fetch_messages unreachable (Fact_check ''The Earth is flat'') =
      Inl (Error ''Failed to fetch'')"
    by (simp add: unreachable_def)
  show ?thesis
    using k down adapters_report_failures [of anthropic_only unreachable "''The Earth is flat''"]
    by simp
qed

text \<open>
  C7. When the Bright Data key is set and the search request succeeds (the response is ok
  and its body parses), the adapter returns verdict true with confidence 0.75 if the
  response holds at least one result, and verdict inconclusive with confidence 0.3 if it
  holds none (an absent \<^verbatim>\<open>results\<close> field included). The agent is a function of the
  number of results alone: nothing else of the response is used.
\<close>

theorem brightData_counts_results:
  assumes "brightData_apiKey cfg \<noteq> []"
    and "fetch_search w statement = Inr response"
    and "ok response"
    and "json response = Inr data"
  shows "fst (verifyWithBrightData cfg w statement) =
     Inr (if 1 \<le> (case results data of None \<Rightarrow> 0 | Some rs \<Rightarrow> length rs)
          then \<lparr>name = ''Bright Data'', verdict = V_true, confidence = Num (75 / 100),
                reasoning = Some (JString ''Found supporting web sources'')\<rparr>
          else \<lparr>name = ''Bright Data'', verdict = V_inconclusive, confidence = Num (3 / 10),
                reasoning = Some (JString ''No conclusive web sources found'')\<rparr>)"
  using assms
  by (cases "results data")
    (auto simp: verifyWithBrightData_def brightData_try_def Suc_le_eq)

theorem brightData_counts_results_witness:
  "brightData_apiKey brightData_only \<noteq> [] \<and>
   fetch_search search_finds_one ''The Earth is flat'' =
     Inr (Response True ''OK'' (Inr (Brightdata_data (Some [''https://example.org/flat-earth''])))) \<and>
   fst (verifyWithBrightData brightData_only search_finds_one ''The Earth is flat'') =
     Inr \<lparr>name = ''Bright Data'', verdict = V_true, confidence = Num (75 / 100),
          reasoning = Some (JString ''Found supporting web sources'')\<rparr> \<and>
   fetch_search search_finds_nothing ''The Earth is flat'' =
     Inr (Response True ''OK'' (Inr (Brightdata_data (Some [])))) \<and>
   fst (verifyWithBrightData brightData_only search_finds_nothing ''The Earth is flat'') =
     Inr \<lparr>name = ''Bright Data'', verdict = V_inconclusive, confidence = Num (3 / 10),
          reasoning = Some (JString ''No conclusive web sources found'')\<rparr>"
proof -
  have k: "brightData_apiKey brightData_only \<noteq> []"
    by (simp add: brightData_only_def no_keys_def)
  have one: "fetch_search search_finds_one ''The Earth is flat'' =
      Inr (Response True ''OK'' (Inr (Brightdata_data (Some [''https://example.org/flat-earth'']))))"
    by (simp add: search_finds_one_def)
  have none: "fetch_search search_finds_nothing ''The Earth is flat'' =
      Inr (Response True ''OK'' (Inr (Brightdata_data (Some []))))"
    by (simp add: search_finds_nothing_def)
  show ?thesis
    using k one none
      brightData_counts_results [OF k one, of "Brightdata_data (Some [''https://example.org/flat-earth''])"]
      brightData_counts_results [OF k none, of "Brightdata_data (Some [])"]
    by simp
qed

text \<open>
  C8. On a successful Fetch.ai response the returned confidence is meant to be the
  confidence the response supplies, 0.8 standing in only for a missing field. The code
  writes \<^verbatim>\<open>data.confidence || 0.8\<close>, and 0 is not truthy: a response that supplies
  verdict false with confidence 0 yields an agent with confidence 0.8, not 0.
\<close>

theorem fetchAI_zero_confidence_replaced:
  "fst (verifyWithFetchAI fetchAI_only agent_certain_of_nothing ''The Earth is flat'') =
     Inr \<lparr>name = ''Fetch.ai'', verdict = V_false, confidence = Num (8 / 10),
          reasoning = Some (JString ''The Earth is round.'')\<rparr> \<and>
   Num (8 / 10) \<noteq> Num 0"
  by (simp add: verifyWithFetchAI_def fetchAI_try_def fetchAI_only_def no_keys_def
      agent_certain_of_nothing_def unreachable_def or_default_def truthy_verdict_def
      truthy_string_def)

text \<open>
  What the Fetch.ai adapter does with a successful response: a verdict that is supplied
  is returned; a confidence that is supplied and is neither 0 nor \<open>NaN\<close> is returned, and
  0.8 otherwise; a reasoning that is supplied and truthy is returned, and the fixed
  string otherwise.
\<close>

theorem fetchAI_reads_truthy_fields:
  assumes "fetchAI_apiKey cfg \<noteq> []"
    and "fetch_verify w statement = Inr response"
    and "ok response"
    and "json response = Inr data"
  shows "\<exists>a. fst (verifyWithFetchAI cfg w statement) = Inr a \<and> name a = ''Fetch.ai'' \<and>
     verdict a = (case data_verdict data of None \<Rightarrow> V_inconclusive | Some v \<Rightarrow> v) \<and>
     confidence a =
       (case data_confidence data of
          None \<Rightarrow> Num (8 / 10)
        | Some c \<Rightarrow> if c = Num 0 \<or> c = NaN then Num (8 / 10) else c) \<and>
     reasoning a =
       (case data_reasoning data of
          None \<Rightarrow> Some (JString ''Fetch.ai agent verification'')
        | Some r \<Rightarrow>
            if truthy_json r then Some r else Some (JString ''Fetch.ai agent verification''))"
proof -
  have "truthy_number c = (\<not> (c = Num 0 \<or> c = NaN))" for c
    by (cases c) auto
  then show ?thesis
    using assms
    by (auto simp: verifyWithFetchAI_def fetchAI_try_def or_default_def truthy_verdict_def
        truthy_string_def split: option.splits)
qed

theorem fetchAI_reads_truthy_fields_witness:
  "fetchAI_apiKey fetchAI_only \<noteq> [] \<and>
   fetch_verify agent_confident ''The Earth is flat'' =
     Inr (Response True ''OK''
            (Inr \<lparr>data_verdict = Some V_false, data_confidence = Some (Num (95 / 100)),
                  data_reasoning = Some (JString ''The Earth is round.'')\<rparr>)) \<and>
   fst (verifyWithFetchAI fetchAI_only agent_confident ''The Earth is flat'') =
     Inr \<lparr>name = ''Fetch.ai'', verdict = V_false, confidence = Num (95 / 100),
          reasoning = Some (JString ''The Earth is round.'')\<rparr>"
proof -
  have k: "fetchAI_apiKey fetchAI_only \<noteq> []"
    by (simp add: fetchAI_only_def no_keys_def)
  have r: "fetch_verify agent_confident ''The Earth is flat'' =
      Inr (Response True ''OK''
             (Inr \<lparr>data_verdict = Some V_false, data_confidence = Some (Num (95 / 100)),
                   data_reasoning = Some (JString ''The Earth is round.'')\<rparr>))"
    by (simp add: agent_confident_def)
  show ?thesis
    using k r
      fetchAI_reads_truthy_fields
        [OF k r, of "\<lparr>data_verdict = Some V_false, data_confidence = Some (Num (95 / 100)),
                      data_reasoning = Some (JString ''The Earth is round.'')\<rparr>"]
    by (auto simp: truthy_string_def)
qed

section \<open>Properties of the consensus resolver\<close>

lemma getLavaGatewayConsensus_fulfils:
  "\<exists>outcome. fst (getLavaGatewayConsensus cfg w ags) = Inr outcome"
  by (auto simp: getLavaGatewayConsensus_def split: sum.splits)

text \<open>
  C3. When the gateway key is not set the resolver returns the local consensus and sends
  no request. When the key is set and the gateway request fails (the request is rejected,
  the response is not ok, or its body does not parse) the resolver returns the local
  consensus. When the request succeeds the verdict and score of the response are
  returned as they are. In every case the resolver returns and does not throw.
\<close>

theorem gateway_or_local:
  "(lavaGateway_apiKey cfg = [] \<longrightarrow>
      getLavaGatewayConsensus cfg w ags = (Inr (calculateLocalConsensus ags), [])) \<and>
   (lavaGateway_apiKey cfg \<noteq> [] \<and>
    ((\<exists>e. fetch_consensus w (map (\<lambda>a. (name a, verdict a, confidence a)) ags) = Inl e) \<or>
     (\<exists>response.
        fetch_consensus w (map (\<lambda>a. (name a, verdict a, confidence a)) ags) = Inr response \<and>
        (\<not> ok response \<or> (\<exists>e. json response = Inl e)))) \<longrightarrow>
      fst (getLavaGatewayConsensus cfg w ags) = Inr (calculateLocalConsensus ags)) \<and>
   (\<forall>response data.
      lavaGateway_apiKey cfg \<noteq> [] \<and>
      fetch_consensus w (map (\<lambda>a. (name a, verdict a, confidence a)) ags) = Inr response \<and>
      ok response \<and> json response = Inr data \<longrightarrow>
      fst (getLavaGatewayConsensus cfg w ags) =
        Inr \<lparr>consensusVerdict = lava_verdict data, consensusScore = lava_score data\<rparr>) \<and>
   (\<exists>outcome. fst (getLavaGatewayConsensus cfg w ags) = Inr outcome)"
  by (auto simp: getLavaGatewayConsensus_def lava_try_def split: sum.splits)

theorem gateway_or_local_witness:
  "lavaGateway_apiKey no_keys = [] \<and>
   getLavaGatewayConsensus no_keys unreachable two_false_two_true =
     (Inr (calculateLocalConsensus two_false_two_true), []) \<and>
   lavaGateway_apiKey lava_only \<noteq> [] \<and>
   fetch_consensus unreachable (map (\<lambda>a. (name a, verdict a, confidence a)) two_false_two_true) =
     Inl (Error ''Failed to fetch'') \<and>
   fst (getLavaGatewayConsensus lava_only unreachable two_false_two_true) =
     Inr (calculateLocalConsensus two_false_two_true) \<and>
   \<not> ok (Response False ''Service Unavailable'' (Inl (Error ''Unexpected token'') :: thrown + lava_data)) \<and>
   fst (getLavaGatewayConsensus lava_only gateway_overloaded two_false_two_true) =
     Inr (calculateLocalConsensus two_false_two_true) \<and>
   fst (getLavaGatewayConsensus lava_only gateway_says_false two_false_two_true) =
     Inr \<lparr>consensusVerdict = V_false, consensusScore = Num (9 / 10)\<rparr>"
proof -
  have k0: "lavaGateway_apiKey no_keys = []" by (simp add: no_keys_def)
  have k1: "lavaGateway_apiKey lava_only \<noteq> []" by (simp add: lava_only_def no_keys_def)
  have down: "fetch_consensus unreachable
      (map (\<lambda>a. (name a, verdict a, confidence a)) two_false_two_true) =
      Inl (Error ''Failed to fetch'')"
    by (simp add: unreachable_def)
  have busy: "fetch_consensus gateway_overloaded
      (map (\<lambda>a. (name a, verdict a, confidence a)) two_false_two_true) =
      Inr (Response False ''Service Unavailable'' (Inl (Error ''Unexpected token'')))"
    by (simp add: gateway_overloaded_def)
  have up: "fetch_consensus gateway_says_false
      (map (\<lambda>a. (name a, verdict a, confidence a)) two_false_two_true) =
      Inr (Response True ''OK'' (Inr \<lparr>lava_verdict = V_false, lava_score = Num (9 / 10)\<rparr>))"
    by (simp add: gateway_says_false_def)
  show ?thesis
    using k0 k1 down busy up
      gateway_or_local [of no_keys unreachable two_false_two_true]
      gateway_or_local [of lava_only unreachable two_false_two_true]
      gateway_or_local [of lava_only gateway_overloaded two_false_two_true]
      gateway_or_local [of lava_only gateway_says_false two_false_two_true]
    by simp
qed

section \<open>Properties of the correction synthesizer\<close>

text \<open>The conversion to a string throws one thing only.\<close>

lemma conversion_throws:
  "to_string nt v = Inl e \<Longrightarrow> e = Error ''Cannot convert object to primitive value''"
  "join nt vs = Inl e \<Longrightarrow> e = Error ''Cannot convert object to primitive value''"
  by (induction nt v and nt vs rule: to_string_join.induct)
    (auto split: if_splits sum.splits)

lemma first_reasoning_string:
  "first_reasoning w (JString r) = Inr (Some (JString (''Correction: '' @ r)))"
  by (simp add: first_reasoning_def)

lemma first_reasoning_throws:
  "first_reasoning w v = Inl e \<Longrightarrow> e = Error ''Cannot convert object to primitive value''"
  by (auto simp: first_reasoning_def split: sum.splits dest: conversion_throws)

lemma falseReasonings_Cons:
  "falseReasonings (a # ags) =
     (if verdict a = V_false \<and> (case reasoning a of None \<Rightarrow> False | Some v \<Rightarrow> truthy_json v)
      then the (reasoning a) # falseReasonings ags
      else falseReasonings ags)"
  by (simp add: falseReasonings_def split: option.splits)

lemma falseReasonings_Nil: "falseReasonings [] = []"
  by (simp add: falseReasonings_def)

lemma falseReasonings_find_None:
  "find (\<lambda>a. verdict a = V_false \<and> (case reasoning a of None \<Rightarrow> False | Some v \<Rightarrow> truthy_json v)) ags = None
   \<Longrightarrow> falseReasonings ags = []"
  by (induction ags) (simp_all add: falseReasonings_Nil falseReasonings_Cons split: if_splits)

lemma falseReasonings_find_Some:
  "find (\<lambda>a. verdict a = V_false \<and> (case reasoning a of None \<Rightarrow> False | Some v \<Rightarrow> truthy_json v)) ags = Some a
   \<Longrightarrow> \<exists>others. falseReasonings ags = the (reasoning a) # others"
  by (induction ags) (auto simp: falseReasonings_Cons split: if_splits)

lemma falseReasonings_from_agents:
  "v \<in> set (falseReasonings ags) \<Longrightarrow> \<exists>a\<in>set ags. reasoning a = Some v"
  by (induction ags) (auto simp: falseReasonings_Nil falseReasonings_Cons split: if_splits option.splits)

lemma generateCorrectInformation_cases:
  "(\<exists>correction. fst (generateCorrectInformation cfg w s ags) = Inr correction) \<or>
   (\<exists>first others. falseReasonings ags = first # others \<and>
      fst (generateCorrectInformation cfg w s ags) = first_reasoning w first)"
  by (auto simp: generateCorrectInformation_def split: list.splits sum.splits exit.splits prod.splits)

lemma generateCorrectInformation_declared:
  assumes "\<forall>a\<in>set ags. declared_string (reasoning a)"
  shows "\<exists>correction. fst (generateCorrectInformation cfg w s ags) = Inr correction"
proof -
  from generateCorrectInformation_cases [of cfg w s ags] show ?thesis
  proof
    assume "\<exists>correction. fst (generateCorrectInformation cfg w s ags) = Inr correction"
    then show ?thesis .
  next
    assume "\<exists>first others. falseReasonings ags = first # others \<and>
      fst (generateCorrectInformation cfg w s ags) = first_reasoning w first"
    then obtain first others where fr: "falseReasonings ags = first # others"
      and g: "fst (generateCorrectInformation cfg w s ags) = first_reasoning w first"
      by blast
    from fr have "first \<in> set (falseReasonings ags)" by simp
    then obtain a where "a \<in> set ags" and "reasoning a = Some first"
      using falseReasonings_from_agents by blast
    with assms have "declared_string (Some first)" by auto
    then obtain r where "first = JString r"
      by (cases first) auto
    then show ?thesis using g by (simp add: first_reasoning_string)
  qed
qed

lemma generateCorrectInformation_throws:
  "fst (generateCorrectInformation cfg w s ags) = Inl e \<Longrightarrow>
   e = Error ''Cannot convert object to primitive value''"
  using generateCorrectInformation_cases [of cfg w s ags]
  by (auto dest: first_reasoning_throws [OF sym])

text \<open>
  C9. When no agent voting false has reasoning text (a truthy reasoning), the synthesizer
  returns the fixed generic message and sends no request. Otherwise, when the Claude key
  is not set or the synthesis request fails (its body cannot be built, the request is
  rejected, the response is not ok, its body does not parse or holds no content block),
  it returns \<^verbatim>\<open>Correction: \<close> followed by the first reasoning text among the agents
  voting false, taken in agent order. Over agents whose reasoning is a string or
  missing, as \<^verbatim>\<open>VerificationAgent\<close> declares, the synthesizer returns in every case and
  does not throw.
\<close>

theorem correction_without_synthesis:
  "(\<not> (\<exists>a\<in>set ags. verdict a = V_false \<and> (\<exists>v. reasoning a = Some v \<and> truthy_json v)) \<longrightarrow>
      generateCorrectInformation cfg w falseStatement ags =
        (Inr (Some (JString (''The statement has been determined to be false, '' @
                             ''but specific corrections are unavailable.''))), [])) \<and>
   (\<forall>a r.
      find (\<lambda>a. verdict a = V_false \<and> (case reasoning a of None \<Rightarrow> False | Some v \<Rightarrow> truthy_json v))
        ags = Some a \<and>
      reasoning a = Some (JString r) \<and>
      (anthropic_apiKey cfg = [] \<or>
       (\<exists>e. to_strings (Number_toString w) (falseReasonings ags) = Inl e) \<or>
       (\<exists>texts. to_strings (Number_toString w) (falseReasonings ags) = Inr texts \<and>
          ((\<exists>e. fetch_messages w (Correction falseStatement texts) = Inl e) \<or>
           (\<exists>response.
              fetch_messages w (Correction falseStatement texts) = Inr response \<and>
              (\<not> ok response \<or> (\<exists>e. json response = Inl e) \<or>
               (\<exists>data. json response = Inr data \<and> content data = [])))))) \<longrightarrow>
      fst (generateCorrectInformation cfg w falseStatement ags) =
        Inr (Some (JString (''Correction: '' @ r)))) \<and>
   ((\<forall>a\<in>set ags. declared_string (reasoning a)) \<longrightarrow>
      (\<exists>correction. fst (generateCorrectInformation cfg w falseStatement ags) = Inr correction))"
proof (intro conjI allI impI)
  assume none: "\<not> (\<exists>a\<in>set ags. verdict a = V_false \<and> (\<exists>v. reasoning a = Some v \<and> truthy_json v))"
  have "find (\<lambda>a. verdict a = V_false \<and> (case reasoning a of None \<Rightarrow> False | Some v \<Rightarrow> truthy_json v))
      ags = None"
    using none by (auto simp: find_None_iff split: option.splits)
  then have "falseReasonings ags = []"
    by (rule falseReasonings_find_None)
  then show "generateCorrectInformation cfg w falseStatement ags =
      (Inr (Some (JString (''The statement has been determined to be false, '' @
                           ''but specific corrections are unavailable.''))), [])"
    by (simp add: generateCorrectInformation_def)
next
  fix a r
  assume h: "find (\<lambda>a. verdict a = V_false \<and> (case reasoning a of None \<Rightarrow> False | Some v \<Rightarrow> truthy_json v))
        ags = Some a \<and>
      reasoning a = Some (JString r) \<and>
      (anthropic_apiKey cfg = [] \<or>
       (\<exists>e. to_strings (Number_toString w) (falseReasonings ags) = Inl e) \<or>
       (\<exists>texts. to_strings (Number_toString w) (falseReasonings ags) = Inr texts \<and>
          ((\<exists>e. fetch_messages w (Correction falseStatement texts) = Inl e) \<or>
           (\<exists>response.
              fetch_messages w (Correction falseStatement texts) = Inr response \<and>
              (\<not> ok response \<or> (\<exists>e. json response = Inl e) \<or>
               (\<exists>data. json response = Inr data \<and> content data = []))))))"
  then obtain others where fr: "falseReasonings ags = JString r # others"
    using falseReasonings_find_Some [of ags a] by auto
  from h have "anthropic_apiKey cfg = [] \<or>
      (\<exists>e. fst (correction_try w falseStatement (JString r # others)) = Inl e) \<or>
      fst (correction_try w falseStatement (JString r # others)) = Inr Completed"
    unfolding fr
    by (cases "to_strings (Number_toString w) (JString r # others)")
      (auto simp: correction_try_def split: sum.splits)
  then show "fst (generateCorrectInformation cfg w falseStatement ags) =
      Inr (Some (JString (''Correction: '' @ r)))"
    using fr
    by (auto simp: generateCorrectInformation_def first_reasoning_string split: prod.splits)
next
  assume "\<forall>a\<in>set ags. declared_string (reasoning a)"
  then show "\<exists>correction. fst (generateCorrectInformation cfg w falseStatement ags) = Inr correction"
    by (rule generateCorrectInformation_declared)
qed


theorem correction_without_synthesis_witness:
  "\<not> (\<exists>a\<in>set three_false_one_inconclusive.
        verdict a = V_false \<and> (\<exists>v. reasoning a = Some v \<and> truthy_json v)) \<and>
   generateCorrectInformation anthropic_only unreachable ''The Earth is flat''
       three_false_one_inconclusive =
     (Inr (Some (JString (''The statement has been determined to be false, '' @
                          ''but specific corrections are unavailable.''))), []) \<and>
   find (\<lambda>a. verdict a = V_false \<and> (case reasoning a of None \<Rightarrow> False | Some v \<Rightarrow> truthy_json v))
       second_agent_explains =
     Some \<lparr>name = ''Fetch.ai'', verdict = V_false, confidence = Num (8 / 10),
           reasoning = Some (JString ''The Earth is an oblate spheroid.'')\<rparr> \<and>
   anthropic_apiKey no_keys = [] \<and>
   fst (generateCorrectInformation no_keys unreachable ''The Earth is flat''
          second_agent_explains) =
     Inr (Some (JString ''Correction: The Earth is an oblate spheroid.'')) \<and>
   to_strings (Number_toString unreachable) (falseReasonings second_agent_explains) =
     Inr [''The Earth is an oblate spheroid.'', ''Satellite images show a globe.''] \<and>
   fetch_messages unreachable
       (Correction ''The Earth is flat''
          [''The Earth is an oblate spheroid.'', ''Satellite images show a globe.'']) =
     Inl (Error ''Failed to fetch'') \<and>
   fst (generateCorrectInformation anthropic_only unreachable ''The Earth is flat''
          second_agent_explains) =
     Inr (Some (JString ''Correction: The Earth is an oblate spheroid.'')) \<and>
   list_all (\<lambda>a. declared_string (reasoning a)) second_agent_explains"
proof -
  have silent: "\<not> (\<exists>a\<in>set three_false_one_inconclusive.
        verdict a = V_false \<and> (\<exists>v. reasoning a = Some v \<and> truthy_json v))"
    by (simp add: three_false_one_inconclusive_def agent_voting_def)
  have first: "find (\<lambda>a. verdict a = V_false \<and> (case reasoning a of None \<Rightarrow> False | Some v \<Rightarrow> truthy_json v))
       second_agent_explains =
     Some \<lparr>name = ''Fetch.ai'', verdict = V_false, confidence = Num (8 / 10),
           reasoning = Some (JString ''The Earth is an oblate spheroid.'')\<rparr>"
    by (simp add: second_agent_explains_def agent_voting_def truthy_string_def)
  have k: "anthropic_apiKey no_keys = []"
    by (simp add: no_keys_def)
  have texts: "to_strings (Number_toString unreachable) (falseReasonings second_agent_explains) =
     Inr [''The Earth is an oblate spheroid.'', ''Satellite images show a globe.'']"
    by (simp add: second_agent_explains_def agent_voting_def falseReasonings_def
        truthy_string_def)
  have down: "fetch_messages unreachable
       (Correction ''The Earth is flat''
          [''The Earth is an oblate spheroid.'', ''Satellite images show a globe.'']) =
     Inl (Error ''Failed to fetch'')"
    by (simp add: unreachable_def)
  have declared: "list_all (\<lambda>a. declared_string (reasoning a)) second_agent_explains"
    by (simp add: second_agent_explains_def agent_voting_def)
  show ?thesis
    using silent first k texts down declared
      correction_without_synthesis
        [of three_false_one_inconclusive anthropic_only unreachable "''The Earth is flat''"]
      correction_without_synthesis
        [of second_agent_explains no_keys unreachable "''The Earth is flat''"]
      correction_without_synthesis
        [of second_agent_explains anthropic_only unreachable "''The Earth is flat''"]
    by simp
qed

section \<open>Properties of the join\<close>

text \<open>
  When every promise is fulfilled, \<^verbatim>\<open>Promise.all\<close> gives the values in the order of the
  promises, whatever the order in which they settle.
\<close>

lemma settle_fulfilled:
  "set order \<subseteq> {0..<length vs} \<Longrightarrow> length vals = length vs \<Longrightarrow>
   \<exists>vals'. settle (map Inr vs) order vals = Inr vals' \<and> length vals' = length vs \<and>
     (\<forall>i<length vs. vals' ! i = (if i \<in> set order then Some (vs ! i) else vals ! i))"
proof (induction order arbitrary: vals)
  case Nil
  then show ?case by simp
next
  case (Cons i order)
  from Cons.prems have i: "i < length vs" and sub: "set order \<subseteq> {0..<length vs}"
    by auto
  have len: "length (vals[i := Some (vs ! i)]) = length vs"
    using Cons.prems by simp
  from Cons.IH [OF sub len] obtain vals' where
    s: "settle (map Inr vs) order (vals[i := Some (vs ! i)]) = Inr vals'"
    and l: "length vals' = length vs"
    and n: "\<forall>j<length vs. vals' ! j =
        (if j \<in> set order then Some (vs ! j) else (vals[i := Some (vs ! i)]) ! j)"
    by blast
  have "settle (map Inr vs) (i # order) vals = Inr vals'"
    using s i by simp
  moreover have "\<forall>j<length vs. vals' ! j =
      (if j \<in> set (i # order) then Some (vs ! j) else vals ! j)"
    using n i Cons.prems(2) by (auto simp: nth_list_update)
  ultimately show ?case using l by blast
qed

lemma promise_all_fulfilled: "promise_all lat (map Inr vs) = Inr vs"
proof -
  let ?order = "sort_key lat [0..<length vs]"
  have "set ?order \<subseteq> {0..<length vs}" by simp
  moreover have "length (replicate (length vs) (None :: 'a option)) = length vs" by simp
  ultimately obtain vals' where
    s: "settle (map Inr vs) ?order (replicate (length vs) None) = Inr vals'"
    and l: "length vals' = length vs"
    and n: "\<forall>i<length vs. vals' ! i =
        (if i \<in> set ?order then Some (vs ! i) else replicate (length vs) None ! i)"
    using settle_fulfilled [of ?order vs "replicate (length vs) None"] by blast
  have "map the vals' = vs"
  proof (rule nth_equalityI)
    show "length (map the vals') = length vs" using l by simp
  next
    fix i assume "i < length (map the vals')"
    then have i: "i < length vs" using l by simp
    then have "vals' ! i = Some (vs ! i)" using n by simp
    then show "map the vals' ! i = vs ! i" using i l by simp
  qed
  then show ?thesis using s by (simp add: promise_all_def)
qed

lemma promise_all_four:
  "promise_all lat [Inr a1, Inr a2, Inr a3, Inr a4] = Inr [a1, a2, a3, a4]"
  using promise_all_fulfilled [of lat "[a1, a2, a3, a4]"] by simp

section \<open>Properties of the orchestrator\<close>

text \<open>What \<^verbatim>\<open>verifyStatement\<close> assembles from the results of its calls.\<close>

lemma verifyStatement_assembled:
  assumes "fst (verifyWithClaude cfg w s) = Inr a1"
    and "fst (verifyWithFetchAI cfg w s) = Inr a2"
    and "fst (verifyWithGemini cfg w s) = Inr a3"
    and "fst (verifyWithBrightData cfg w s) = Inr a4"
    and "fst (getLavaGatewayConsensus cfg w [a1, a2, a3, a4]) = Inr outcome"
  shows "fst (verifyStatement cfg w s) =
     (if consensusVerdict outcome = V_false
      then (case fst (generateCorrectInformation cfg w s [a1, a2, a3, a4]) of
              Inl e \<Rightarrow> Inl e
            | Inr correction \<Rightarrow>
                Inr \<lparr>statementId = randomUUID w, isFalse = True, consensus = Verified_false,
                     correctInformation = correction, agents = [a1, a2, a3, a4],
                     lavaGatewayConsensus = outcome\<rparr>)
      else Inr \<lparr>statementId = randomUUID w, isFalse = False,
                consensus =
                  (if consensusVerdict outcome = V_true then Verified_true else Inconclusive),
                correctInformation = None, agents = [a1, a2, a3, a4],
                lavaGatewayConsensus = outcome\<rparr>)"
  using assms
  by (simp add: verifyStatement_def promise_all_four Let_def split_beta
      split: prod.splits sum.splits)

text \<open>A run in which every provider answers, whatever the latencies.\<close>

lemma providers_refute_run:
  "verifyStatement all_keys_but_gateway (providers_refute\<lparr>latency := lat\<rparr>) ''The Earth is flat'' =
     (Inr \<lparr>statementId = ''123e4567-e89b-42d3-a456-426614174000'',
           isFalse = True,
           consensus = Verified_false,
           correctInformation = Some (JString ''The Earth is an oblate spheroid.''),
           agents =
             [\<lparr>name = ''Claude (Anthropic)'', verdict = V_false, confidence = Num (95 / 100),
               reasoning = Some (JString ''Photographs from orbit show a sphere.'')\<rparr>,
              \<lparr>name = ''Fetch.ai'', verdict = V_false, confidence = Num (8 / 10),
               reasoning = Some (JString ''Measured since antiquity.'')\<rparr>,
              \<lparr>name = ''Gemini (Google)'', verdict = V_false, confidence = Num (95 / 100),
               reasoning = Some (JString ''Photographs from orbit show a sphere.'')\<rparr>,
              \<lparr>name = ''Bright Data'', verdict = V_true, confidence = Num (75 / 100),
               reasoning = Some (JString ''Found supporting web sources'')\<rparr>],
           lavaGatewayConsensus =
             \<lparr>consensusVerdict = V_false, consensusScore = Num (3 / 4)\<rparr>\<rparr>,
      [Anthropic_messages, Agentverse_verify, Gemini_generateContent, BrightData_search,
       Anthropic_messages])"
  by (simp add: verifyStatement_def verifyWithClaude_def claude_try_def
      verifyWithFetchAI_def fetchAI_try_def verifyWithGemini_def gemini_try_def
      verifyWithBrightData_def brightData_try_def getLavaGatewayConsensus_def
      calculateLocalConsensus_def js_div_def generateCorrectInformation_def
      falseReasonings_def correction_try_def or_default_def truthy_verdict_def
      truthy_string_def ToString_def all_keys_but_gateway_def providers_refute_def
      promise_all_four)









text \<open>Whatever the providers send, nothing but the conversion of line 498 can be thrown.\<close>

theorem only_the_conversion_escapes:
  "fst (verifyStatement cfg w statement) = Inl e \<Longrightarrow>
   e = Error ''Cannot convert object to primitive value''"
proof -
  assume raised: "fst (verifyStatement cfg w statement) = Inl e"
  obtain a1 where a1: "fst (verifyWithClaude cfg w statement) = Inr a1"
    using verifyWithClaude_fulfils by blast
  obtain a2 where a2: "fst (verifyWithFetchAI cfg w statement) = Inr a2"
    using verifyWithFetchAI_fulfils by blast
  obtain a3 where a3: "fst (verifyWithGemini cfg w statement) = Inr a3"
    using verifyWithGemini_fulfils by blast
  obtain a4 where a4: "fst (verifyWithBrightData cfg w statement) = Inr a4"
    using verifyWithBrightData_fulfils by blast
  obtain outcome where
    outcome: "fst (getLavaGatewayConsensus cfg w [a1, a2, a3, a4]) = Inr outcome"
    using getLavaGatewayConsensus_fulfils by blast
  from raised verifyStatement_assembled [OF a1 a2 a3 a4 outcome]
  have "fst (generateCorrectInformation cfg w statement [a1, a2, a3, a4]) = Inl e"
    by (auto split: if_splits sum.splits)
  then show ?thesis by (rule generateCorrectInformation_throws)
qed

theorem only_the_conversion_escapes_witness:
  "fst (verifyStatement fetchAI_and_gateway reasoning_is_object ''The Earth is flat'') =
     Inl (Error ''Cannot convert object to primitive value'')"
proof -
  have "\<exists>e. fst (verifyStatement fetchAI_and_gateway reasoning_is_object ''The Earth is flat'') = Inl e"
    by (simp add: verifyStatement_def verifyWithClaude_def verifyWithFetchAI_def fetchAI_try_def
      verifyWithGemini_def verifyWithBrightData_def getLavaGatewayConsensus_def lava_try_def
      generateCorrectInformation_def falseReasonings_def first_reasoning_def
      or_default_def truthy_verdict_def not_configured_def
      fetchAI_and_gateway_def no_keys_def reasoning_is_object_def gateway_says_false_def
      unreachable_def promise_all_four)
  then show ?thesis
    using only_the_conversion_escapes by blast
qed

text \<open>
  When every successful synthesis response has a text in its first content block, what
  the synthesizer returns is present.
\<close>

lemma generateCorrectInformation_present:
  assumes "\<And>texts response data block rest.
      fetch_messages w (Correction s texts) = Inr response \<Longrightarrow> json response = Inr data \<Longrightarrow>
      content data = block # rest \<Longrightarrow> block_text block \<noteq> None"
    and "fst (generateCorrectInformation cfg w s ags) = Inr correction"
  shows "correction \<noteq> None"
  using assms
  by (auto simp: generateCorrectInformation_def correction_try_def first_reasoning_def
      split: list.splits if_splits sum.splits exit.splits prod.splits)

text \<open>
  C5. In every result that \<^verbatim>\<open>verifyStatement\<close> returns, \<^verbatim>\<open>isFalse\<close> holds exactly when
  the verdict of the consensus is false (the label \<^verbatim>\<open>verified_false\<close>);
  \<^verbatim>\<open>correctInformation\<close> is absent whenever \<^verbatim>\<open>isFalse\<close> does not hold, so a result
  labelled \<^verbatim>\<open>verified_true\<close> or \<^verbatim>\<open>inconclusive\<close> never carries it; and it is present
  whenever \<^verbatim>\<open>isFalse\<close> holds, provided that the first content block of every
  synthesis response that parses has a text. Without that proviso the property fails,
  as a run further down shows.
\<close>

theorem correction_iff_false:
  assumes "fst (verifyStatement cfg w statement) = Inr result"
  shows "isFalse result = (consensusVerdict (lavaGatewayConsensus result) = V_false) \<and>
     isFalse result = (consensus result = Verified_false) \<and>
     (consensus result = Verified_true \<or> consensus result = Inconclusive \<longrightarrow>
        correctInformation result = None) \<and>
     (correctInformation result \<noteq> None \<longrightarrow> isFalse result) \<and>
     ((\<forall>texts response data block rest.
         fetch_messages w (Correction statement texts) = Inr response \<and>
         json response = Inr data \<and> content data = block # rest \<longrightarrow>
         block_text block \<noteq> None) \<longrightarrow>
      (correctInformation result \<noteq> None) = isFalse result)"
proof -
  obtain a1 where a1: "fst (verifyWithClaude cfg w statement) = Inr a1"
    using verifyWithClaude_fulfils by blast
  obtain a2 where a2: "fst (verifyWithFetchAI cfg w statement) = Inr a2"
    using verifyWithFetchAI_fulfils by blast
  obtain a3 where a3: "fst (verifyWithGemini cfg w statement) = Inr a3"
    using verifyWithGemini_fulfils by blast
  obtain a4 where a4: "fst (verifyWithBrightData cfg w statement) = Inr a4"
    using verifyWithBrightData_fulfils by blast
  obtain outcome where
    outcome: "fst (getLavaGatewayConsensus cfg w [a1, a2, a3, a4]) = Inr outcome"
    using getLavaGatewayConsensus_fulfils by blast
  note run = verifyStatement_assembled [OF a1 a2 a3 a4 outcome]
  show ?thesis
  proof (cases "consensusVerdict outcome = V_false")
    case False
    then have "result =
        \<lparr>statementId = randomUUID w, isFalse = False,
         consensus = (if consensusVerdict outcome = V_true then Verified_true else Inconclusive),
         correctInformation = None, agents = [a1, a2, a3, a4],
         lavaGatewayConsensus = outcome\<rparr>"
      using run assms by simp
    then show ?thesis using False by simp
  next
    case True
    then obtain correction where
      c: "fst (generateCorrectInformation cfg w statement [a1, a2, a3, a4]) = Inr correction"
      and r: "result =
        \<lparr>statementId = randomUUID w, isFalse = True, consensus = Verified_false,
         correctInformation = correction, agents = [a1, a2, a3, a4],
         lavaGatewayConsensus = outcome\<rparr>"
      using run assms by (auto split: sum.splits)
    have "(\<forall>texts response data block rest.
         fetch_messages w (Correction statement texts) = Inr response \<and>
         json response = Inr data \<and> content data = block # rest \<longrightarrow>
         block_text block \<noteq> None) \<longrightarrow> correction \<noteq> None"
      using generateCorrectInformation_present [OF _ c] by blast
    then show ?thesis using True r by simp
  qed
qed

theorem correction_iff_false_witness:
  "fst (verifyStatement all_keys_but_gateway providers_refute ''The Earth is flat'') =
     Inr \<lparr>statementId = ''123e4567-e89b-42d3-a456-426614174000'',
           isFalse = True,
           consensus = Verified_false,
           correctInformation = Some (JString ''The Earth is an oblate spheroid.''),
           agents =
             [\<lparr>name = ''Claude (Anthropic)'', verdict = V_false, confidence = Num (95 / 100),
               reasoning = Some (JString ''Photographs from orbit show a sphere.'')\<rparr>,
              \<lparr>name = ''Fetch.ai'', verdict = V_false, confidence = Num (8 / 10),
               reasoning = Some (JString ''Measured since antiquity.'')\<rparr>,
              \<lparr>name = ''Gemini (Google)'', verdict = V_false, confidence = Num (95 / 100),
               reasoning = Some (JString ''Photographs from orbit show a sphere.'')\<rparr>,
              \<lparr>name = ''Bright Data'', verdict = V_true, confidence = Num (75 / 100),
               reasoning = Some (JString ''Found supporting web sources'')\<rparr>],
           lavaGatewayConsensus =
             \<lparr>consensusVerdict = V_false, consensusScore = Num (3 / 4)\<rparr>\<rparr> \<and>
   block_text (Text_block (Some (JString ''The Earth is an oblate spheroid.''))) \<noteq> None \<and>
   fst (verifyStatement no_keys unreachable ''The Earth is flat'') =
     Inr \<lparr>statementId = ''123e4567-e89b-42d3-a456-426614174000'',
           isFalse = False,
           consensus = Inconclusive,
           correctInformation = None,
           agents =
             [\<lparr>name = ''Claude (Anthropic)'', verdict = V_inconclusive, confidence = Num 0,
               reasoning = Some (JString ''API key not configured'')\<rparr>,
              \<lparr>name = ''Fetch.ai'', verdict = V_inconclusive, confidence = Num 0,
               reasoning = Some (JString ''API key not configured'')\<rparr>,
              \<lparr>name = ''Gemini (Google)'', verdict = V_inconclusive, confidence = Num 0,
               reasoning = Some (JString ''API key not configured'')\<rparr>,
              \<lparr>name = ''Bright Data'', verdict = V_inconclusive, confidence = Num 0,
               reasoning = Some (JString ''API key not configured'')\<rparr>],
           lavaGatewayConsensus =
             \<lparr>consensusVerdict = V_inconclusive, consensusScore = Num 1\<rparr>\<rparr>"
proof -
  have run: "fst (verifyStatement all_keys_but_gateway providers_refute ''The Earth is flat'') =
     Inr \<lparr>statementId = ''123e4567-e89b-42d3-a456-426614174000'',
           isFalse = True,
           consensus = Verified_false,
           correctInformation = Some (JString ''The Earth is an oblate spheroid.''),
           agents =
             [\<lparr>name = ''Claude (Anthropic)'', verdict = V_false, confidence = Num (95 / 100),
               reasoning = Some (JString ''Photographs from orbit show a sphere.'')\<rparr>,
              \<lparr>name = ''Fetch.ai'', verdict = V_false, confidence = Num (8 / 10),
               reasoning = Some (JString ''Measured since antiquity.'')\<rparr>,
              \<lparr>name = ''Gemini (Google)'', verdict = V_false, confidence = Num (95 / 100),
               reasoning = Some (JString ''Photographs from orbit show a sphere.'')\<rparr>,
              \<lparr>name = ''Bright Data'', verdict = V_true, confidence = Num (75 / 100),
               reasoning = Some (JString ''Found supporting web sources'')\<rparr>],
           lavaGatewayConsensus =
             \<lparr>consensusVerdict = V_false, consensusScore = Num (3 / 4)\<rparr>\<rparr>"
    using providers_refute_run [of "latency providers_refute"] by simp
  have quiet: "fst (verifyStatement no_keys unreachable ''The Earth is flat'') =
     Inr \<lparr>statementId = ''123e4567-e89b-42d3-a456-426614174000'',
           isFalse = False,
           consensus = Inconclusive,
           correctInformation = None,
           agents =
             [\<lparr>name = ''Claude (Anthropic)'', verdict = V_inconclusive, confidence = Num 0,
               reasoning = Some (JString ''API key not configured'')\<rparr>,
              \<lparr>name = ''Fetch.ai'', verdict = V_inconclusive, confidence = Num 0,
               reasoning = Some (JString ''API key not configured'')\<rparr>,
              \<lparr>name = ''Gemini (Google)'', verdict = V_inconclusive, confidence = Num 0,
               reasoning = Some (JString ''API key not configured'')\<rparr>,
              \<lparr>name = ''Bright Data'', verdict = V_inconclusive, confidence = Num 0,
               reasoning = Some (JString ''API key not configured'')\<rparr>],
           lavaGatewayConsensus =
             \<lparr>consensusVerdict = V_inconclusive, consensusScore = Num 1\<rparr>\<rparr>"
    by (simp add: verifyStatement_def verifyWithClaude_def verifyWithFetchAI_def
        verifyWithGemini_def verifyWithBrightData_def getLavaGatewayConsensus_def
        calculateLocalConsensus_def js_div_def not_configured_def no_keys_def
        unreachable_def promise_all_four)
  show ?thesis
    using run quiet correction_iff_false [OF run] correction_iff_false [OF quiet]
    by simp
qed

text \<open>
  Stated for whatever the providers send, C5 fails. The verdict of the consensus is
  false, the synthesis request is answered ok, and the first content block of the answer
  has no \<^verbatim>\<open>text\<close>: line 490 returns \<^verbatim>\<open>undefined\<close>, and the result has \<^verbatim>\<open>isFalse\<close>
  without \<^verbatim>\<open>correctInformation\<close>.
\<close>

theorem textless_block_is_returned:
  "verifyStatement anthropic_fetchAI_and_gateway block_without_text ''The Earth is flat'' =
     (Inr \<lparr>statementId = ''123e4567-e89b-42d3-a456-426614174000'',
           isFalse = True,
           consensus = Verified_false,
           correctInformation = None,
           agents =
             [\<lparr>name = ''Claude (Anthropic)'', verdict = V_inconclusive, confidence = Num 0,
               reasoning = Some (JString ''Error: Unexpected token'')\<rparr>,
              \<lparr>name = ''Fetch.ai'', verdict = V_false, confidence = Num (95 / 100),
               reasoning = Some (JString ''The Earth is round.'')\<rparr>,
              \<lparr>name = ''Gemini (Google)'', verdict = V_inconclusive, confidence = Num 0,
               reasoning = Some (JString ''API key not configured'')\<rparr>,
              \<lparr>name = ''Bright Data'', verdict = V_inconclusive, confidence = Num 0,
               reasoning = Some (JString ''API key not configured'')\<rparr>],
           lavaGatewayConsensus =
             \<lparr>consensusVerdict = V_false, consensusScore = Num (9 / 10)\<rparr>\<rparr>,
      [Anthropic_messages, Agentverse_verify, Lava_consensus, Anthropic_messages])"
  by (simp add: verifyStatement_def verifyWithClaude_def claude_try_def ToString_def
      verifyWithFetchAI_def fetchAI_try_def
      verifyWithGemini_def verifyWithBrightData_def getLavaGatewayConsensus_def lava_try_def
      generateCorrectInformation_def falseReasonings_def correction_try_def
      or_default_def truthy_verdict_def truthy_string_def not_configured_def failed_def
      error_reasoning_def
      anthropic_fetchAI_and_gateway_def no_keys_def block_without_text_def
      gateway_says_false_def unreachable_def promise_all_four)

text \<open>
  C6. Whatever the latencies of the four adapters, and so whichever settles first, the
  join gives four agents, named Claude, Fetch.ai, Gemini and Bright Data in this order,
  each being what its adapter returned; and these are the \<^verbatim>\<open>agents\<close> of every result
  that \<^verbatim>\<open>verifyStatement\<close> returns.
\<close>

theorem agents_in_provider_order:
  "\<exists>joined.
     promise_all lat
       [fst (verifyWithClaude cfg w statement), fst (verifyWithFetchAI cfg w statement),
        fst (verifyWithGemini cfg w statement), fst (verifyWithBrightData cfg w statement)] =
       Inr joined \<and>
     length joined = 4 \<and>
     map name joined =
       [''Claude (Anthropic)'', ''Fetch.ai'', ''Gemini (Google)'', ''Bright Data''] \<and>
     map Inr joined =
       [fst (verifyWithClaude cfg w statement), fst (verifyWithFetchAI cfg w statement),
        fst (verifyWithGemini cfg w statement), fst (verifyWithBrightData cfg w statement)] \<and>
     (\<forall>result.
        fst (verifyStatement cfg (w\<lparr>latency := lat\<rparr>) statement) = Inr result \<longrightarrow>
        agents result = joined)"
proof -
  let ?w = "w\<lparr>latency := lat\<rparr>"
  obtain a1 where a1: "fst (verifyWithClaude cfg ?w statement) = Inr a1"
    and n1: "name a1 = ''Claude (Anthropic)''"
    using verifyWithClaude_fulfils by blast
  obtain a2 where a2: "fst (verifyWithFetchAI cfg ?w statement) = Inr a2"
    and n2: "name a2 = ''Fetch.ai''"
    using verifyWithFetchAI_fulfils by blast
  obtain a3 where a3: "fst (verifyWithGemini cfg ?w statement) = Inr a3"
    and n3: "name a3 = ''Gemini (Google)''"
    using verifyWithGemini_fulfils by blast
  obtain a4 where a4: "fst (verifyWithBrightData cfg ?w statement) = Inr a4"
    and n4: "name a4 = ''Bright Data''"
    using verifyWithBrightData_fulfils by blast
  obtain outcome where
    outcome: "fst (getLavaGatewayConsensus cfg ?w [a1, a2, a3, a4]) = Inr outcome"
    using getLavaGatewayConsensus_fulfils by blast
  have returned: "\<forall>result. fst (verifyStatement cfg ?w statement) = Inr result \<longrightarrow>
      agents result = [a1, a2, a3, a4]"
    using verifyStatement_assembled [OF a1 a2 a3 a4 outcome]
    by (auto split: if_splits sum.splits)
  have "promise_all lat
       [fst (verifyWithClaude cfg w statement), fst (verifyWithFetchAI cfg w statement),
        fst (verifyWithGemini cfg w statement), fst (verifyWithBrightData cfg w statement)] =
       Inr [a1, a2, a3, a4]"
    using a1 a2 a3 a4 by (simp add: adapters_ignore_latency promise_all_four)
  moreover have "map Inr [a1, a2, a3, a4] =
       [fst (verifyWithClaude cfg w statement), fst (verifyWithFetchAI cfg w statement),
        fst (verifyWithGemini cfg w statement), fst (verifyWithBrightData cfg w statement)]"
    using a1 a2 a3 a4 by (simp add: adapters_ignore_latency)
  moreover have "map name [a1, a2, a3, a4] =
       [''Claude (Anthropic)'', ''Fetch.ai'', ''Gemini (Google)'', ''Bright Data'']"
    using n1 n2 n3 n4 by simp
  ultimately show ?thesis
    using returned by (intro exI [of _ "[a1, a2, a3, a4]"]) simp
qed

theorem agents_in_provider_order_witness:
  "fst (verifyStatement all_keys_but_gateway (providers_refute\<lparr>latency := (\<lambda>i. i)\<rparr>)
          ''The Earth is flat'') =
     fst (verifyStatement all_keys_but_gateway (providers_refute\<lparr>latency := (\<lambda>i. 4 - i)\<rparr>)
          ''The Earth is flat'') \<and>
   map name (agents (projr (fst (verifyStatement all_keys_but_gateway
       (providers_refute\<lparr>latency := (\<lambda>i. i)\<rparr>) ''The Earth is flat'')))) =
     [''Claude (Anthropic)'', ''Fetch.ai'', ''Gemini (Google)'', ''Bright Data'']"
proof -
  obtain result where run: "fst (verifyStatement all_keys_but_gateway
      (providers_refute\<lparr>latency := (\<lambda>i. i)\<rparr>) ''The Earth is flat'') = Inr result"
    by (simp add: providers_refute_run)
  have "map name (agents result) =
      [''Claude (Anthropic)'', ''Fetch.ai'', ''Gemini (Google)'', ''Bright Data'']"
    using agents_in_provider_order
      [of "\<lambda>i. i" all_keys_but_gateway providers_refute "''The Earth is flat''"]
  proof (elim exE conjE)
    fix joined
    assume names: "map name joined =
        [''Claude (Anthropic)'', ''Fetch.ai'', ''Gemini (Google)'', ''Bright Data'']"
      and agree: "\<forall>result. fst (verifyStatement all_keys_but_gateway
          (providers_refute\<lparr>latency := (\<lambda>i. i)\<rparr>) ''The Earth is flat'') = Inr result \<longrightarrow>
          agents result = joined"
    from agree run have "agents result = joined" by simp
    then show ?thesis using names by simp
  qed
  then have "map name (agents (projr (fst (verifyStatement all_keys_but_gateway
       (providers_refute\<lparr>latency := (\<lambda>i. i)\<rparr>) ''The Earth is flat'')))) =
     [''Claude (Anthropic)'', ''Fetch.ai'', ''Gemini (Google)'', ''Bright Data'']"
    using run by simp
  then show ?thesis
    by (simp add: providers_refute_run)
qed

text \<open>
  C4. When none of the five keys is set (the four providers' and the gateway's), the
  result holds four agents with verdict inconclusive, confidence 0 and the reasoning
  \<^verbatim>\<open>API key not configured\<close>; its consensus is inconclusive with score 4/4 = 1; it has
  no \<^verbatim>\<open>correctInformation\<close>; and no request is sent.
\<close>

theorem no_credentials_result:
  assumes "anthropic_apiKey cfg = []" and "fetchAI_apiKey cfg = []" and "gemini_apiKey cfg = []"
    and "brightData_apiKey cfg = []" and "lavaGateway_apiKey cfg = []"
  shows "verifyStatement cfg w statement =
     (Inr \<lparr>statementId = randomUUID w,
           isFalse = False,
           consensus = Inconclusive,
           correctInformation = None,
           agents =
             [\<lparr>name = ''Claude (Anthropic)'', verdict = V_inconclusive, confidence = Num 0,
               reasoning = Some (JString ''API key not configured'')\<rparr>,
              \<lparr>name = ''Fetch.ai'', verdict = V_inconclusive, confidence = Num 0,
               reasoning = Some (JString ''API key not configured'')\<rparr>,
              \<lparr>name = ''Gemini (Google)'', verdict = V_inconclusive, confidence = Num 0,
               reasoning = Some (JString ''API key not configured'')\<rparr>,
              \<lparr>name = ''Bright Data'', verdict = V_inconclusive, confidence = Num 0,
               reasoning = Some (JString ''API key not configured'')\<rparr>],
           lavaGatewayConsensus =
             \<lparr>consensusVerdict = V_inconclusive, consensusScore = Num (4 / 4)\<rparr>\<rparr>,
      [])"
proof -
  let ?ps = "[not_configured ''Claude (Anthropic)'', not_configured ''Fetch.ai'',
              not_configured ''Gemini (Google)'', not_configured ''Bright Data'']"
  have join: "promise_all (latency w) (map Inr ?ps) = Inr ?ps"
    by (rule promise_all_fulfilled)
  have local: "calculateLocalConsensus ?ps =
      \<lparr>consensusVerdict = V_inconclusive, consensusScore = Num 1\<rparr>"
    by (simp add: calculateLocalConsensus_def not_configured_def js_div_def)
  show ?thesis
    using assms join local
    by (simp add: verifyStatement_def verifyWithClaude_def verifyWithFetchAI_def
        verifyWithGemini_def verifyWithBrightData_def getLavaGatewayConsensus_def
        not_configured_def)
qed

theorem no_credentials_result_witness:
  "anthropic_apiKey no_keys = [] \<and> fetchAI_apiKey no_keys = [] \<and> gemini_apiKey no_keys = [] \<and>
   brightData_apiKey no_keys = [] \<and> lavaGateway_apiKey no_keys = [] \<and>
   map verdict (agents (projr (fst (verifyStatement no_keys unreachable ''The Earth is flat'')))) =
     [V_inconclusive, V_inconclusive, V_inconclusive, V_inconclusive] \<and>
   consensus (projr (fst (verifyStatement no_keys unreachable ''The Earth is flat''))) =
     Inconclusive \<and>
   snd (verifyStatement no_keys unreachable ''The Earth is flat'') = []"
  using no_credentials_result [of no_keys unreachable "''The Earth is flat''"]
  by (simp add: no_keys_def)

text \<open>
  A run from end to end: the gateway key is not set, Claude, Fetch.ai and Gemini answer
  false with reasoning and the search finds a page. The statement is found false by the
  local consensus with score 3/4, the correction is the text of the synthesis response,
  and five requests are sent.
\<close>

theorem flat_earth_is_refuted:
  "verifyStatement all_keys_but_gateway providers_refute ''The Earth is flat'' =
     (Inr \<lparr>statementId = ''123e4567-e89b-42d3-a456-426614174000'',
           isFalse = True,
           consensus = Verified_false,
           correctInformation = Some (JString ''The Earth is an oblate spheroid.''),
           agents =
             [\<lparr>name = ''Claude (Anthropic)'', verdict = V_false, confidence = Num (95 / 100),
               reasoning = Some (JString ''Photographs from orbit show a sphere.'')\<rparr>,
              \<lparr>name = ''Fetch.ai'', verdict = V_false, confidence = Num (8 / 10),
               reasoning = Some (JString ''Measured since antiquity.'')\<rparr>,
              \<lparr>name = ''Gemini (Google)'', verdict = V_false, confidence = Num (95 / 100),
               reasoning = Some (JString ''Photographs from orbit show a sphere.'')\<rparr>,
              \<lparr>name = ''Bright Data'', verdict = V_true, confidence = Num (75 / 100),
               reasoning = Some (JString ''Found supporting web sources'')\<rparr>],
           lavaGatewayConsensus =
             \<lparr>consensusVerdict = V_false, consensusScore = Num (3 / 4)\<rparr>\<rparr>,
      [Anthropic_messages, Agentverse_verify, Gemini_generateContent, BrightData_search,
       Anthropic_messages])"
  using providers_refute_run [of "latency providers_refute"] by simp

end
